theory Spec2Isabelle
  imports Main "HOL-Library.Word"
begin

section \<open>Data model\<close>

text \<open>
  The library of \<^verbatim>\<open>SmartPointers.hpp\<close> and \<^verbatim>\<open>SmartPointers.ipp\<close>: a control block
  with two plain \<^verbatim>\<open>size_t\<close> counters, two concrete block classes, and the handles
  \<^verbatim>\<open>SharedPtr\<close> and \<^verbatim>\<open>WeakPtr\<close>, each holding one raw pointer to a control block.

  Control blocks live in a heap that is a list: the address of a block is its index, and
  allocating appends, so the length of the list is the number of allocations made. A
  block is never taken out of the list; \<^verbatim>\<open>delete_block\<close> is recorded in the block, and
  going through a pointer to a block that was freed, or that was never handed out, is the
  error \<open>UseAfterFree\<close>. SharedPtr and WeakPtr objects live in two further lists; an
  object is named by its index, a constructor appends a new object, and the destructor
  is \<^verbatim>\<open>reset()\<close>, as in the source, so a destroyed object stays in its list, empty.
  An index that names no object gives \<open>NoSuchObject\<close>.

  \<^verbatim>\<open>size_t\<close> is a 64-bit word, so \<^verbatim>\<open>++\<close> and \<^verbatim>\<open>--\<close> wrap around as they do in the
  program. A failed \<^verbatim>\<open>assert\<close> is the error \<open>AssertionFailed\<close> (neither build type of
  the Makefile defines \<^verbatim>\<open>NDEBUG\<close>), a member call through a null control-block
  pointer is \<open>NullDereference\<close>. The allocator is taken to succeed: the source only
  passes \<^verbatim>\<open>std::bad_alloc\<close> on. Deleters and allocators do not touch the counters and
  are left out; \<^verbatim>\<open>delete_data\<close> and \<^verbatim>\<open>delete_block\<close> count their calls instead.
\<close>

type_synonym addr = nat

type_synonym size_t = "64 word"

datatype 'a ptr = nullptr | Ptr 'a

text \<open>
  The address of a managed value: one handed in by the caller (\<^verbatim>\<open>new T\<close>), or the
  member \<^verbatim>\<open>value\<close> inside the control block at the given address.
\<close>

datatype vaddr = Raw nat | Embedded addr

datatype variant = PtrControlBlock | ValueControlBlock

datatype error = AssertionFailed | NullDereference | UseAfterFree | NoSuchObject

type_synonym 'a result = "error + 'a"

text \<open>
  \<^verbatim>\<open>ControlBlockBase\<close> with the parts of its two subclasses that matter here.
  \<open>embedded\<close> is the union member \<^verbatim>\<open>value\<close> of a \<^verbatim>\<open>ValueControlBlock\<close>
  (\<open>None\<close>: no live object in the storage). \<open>delete_data_calls\<close> and
  \<open>delete_block_calls\<close> count the calls of the two virtual functions on this block.
\<close>

record 'v ControlBlockBase =
  data :: "vaddr ptr"
  strong_count :: size_t
  weak_count :: size_t
  variant :: variant
  embedded :: "'v option"
  delete_data_calls :: nat
  delete_block_calls :: nat

record 'v state =
  blocks :: "'v ControlBlockBase list"
  shared :: "addr ptr list"
  weak :: "addr ptr list"

definition init :: "'v state" where
  "init = \<lparr>blocks = [], shared = [], weak = []\<rparr>"

section \<open>ControlBlockBase\<close>

definition get_use_count :: "'v ControlBlockBase \<Rightarrow> size_t" where
  "get_use_count b = strong_count b"

definition is_valid :: "'v ControlBlockBase \<Rightarrow> bool" where
  "is_valid b = (0 < get_use_count b)"

definition get_data :: "'v ControlBlockBase \<Rightarrow> vaddr ptr" where
  "get_data b = data b"

definition set_data :: "vaddr ptr \<Rightarrow> 'v ControlBlockBase \<Rightarrow> 'v ControlBlockBase" where
  "set_data d b = b\<lparr>data := d\<rparr>"

text \<open>
  \<^verbatim>\<open>PtrControlBlock::delete_data\<close> calls the deleter on the stored pointer,
  \<^verbatim>\<open>ValueControlBlock::delete_data\<close> runs \<^verbatim>\<open>value.~T()\<close>.
\<close>

definition delete_data :: "'v ControlBlockBase \<Rightarrow> 'v ControlBlockBase" where
  "delete_data b =
     (case variant b of
        PtrControlBlock \<Rightarrow> b\<lparr>delete_data_calls := Suc (delete_data_calls b)\<rparr>
      | ValueControlBlock \<Rightarrow>
          b\<lparr>embedded := None, delete_data_calls := Suc (delete_data_calls b)\<rparr>)"

text \<open>Both subclasses: destroy the block and hand its storage back to the allocator.\<close>

definition delete_block :: "'v ControlBlockBase \<Rightarrow> 'v ControlBlockBase" where
  "delete_block b = b\<lparr>delete_block_calls := Suc (delete_block_calls b)\<rparr>"

definition add_strong_link :: "'v ControlBlockBase \<Rightarrow> 'v ControlBlockBase result" where
  "add_strong_link b = Inr (b\<lparr>strong_count := strong_count b + 1\<rparr>)"

definition add_weak_link :: "'v ControlBlockBase \<Rightarrow> 'v ControlBlockBase result" where
  "add_weak_link b = Inr (b\<lparr>weak_count := weak_count b + 1\<rparr>)"

definition remove_strong_link :: "'v ControlBlockBase \<Rightarrow> 'v ControlBlockBase result" where
  "remove_strong_link b =
     (if \<not> is_valid b then Inl AssertionFailed
      else let b1 = b\<lparr>strong_count := strong_count b - 1\<rparr> in
        if strong_count b1 = 0 then
          let b2 = delete_data b1 in
          if weak_count b2 = 0 then Inr (delete_block b2) else Inr b2
        else Inr b1)"

definition remove_weak_link :: "'v ControlBlockBase \<Rightarrow> 'v ControlBlockBase result" where
  "remove_weak_link b =
     (if \<not> (is_valid b \<or> 0 < weak_count b) then Inl AssertionFailed
      else let b1 = b\<lparr>weak_count := weak_count b - 1\<rparr> in
        if strong_count b1 = 0 \<and> weak_count b1 = 0 then Inr (delete_block b1)
        else Inr b1)"

text \<open>
  The header \<^verbatim>\<open>SharedPtr.hpp\<close>, which no file includes, declares an older
  \<^verbatim>\<open>ControlBlockBase\<close> whose strong count starts at 1 and whose two \<^verbatim>\<open>add\<close> functions
  assert before they count.
\<close>

definition add_strong_link_legacy :: "'v ControlBlockBase \<Rightarrow> 'v ControlBlockBase result" where
  "add_strong_link_legacy b =
     (if \<not> is_valid b then Inl AssertionFailed
      else Inr (b\<lparr>strong_count := strong_count b + 1\<rparr>))"

definition add_weak_link_legacy :: "'v ControlBlockBase \<Rightarrow> 'v ControlBlockBase result" where
  "add_weak_link_legacy b =
     (if \<not> (is_valid b \<or> 0 < weak_count b) then Inl AssertionFailed
      else Inr (b\<lparr>weak_count := weak_count b + 1\<rparr>))"

section \<open>Memory\<close>

definition bind_result :: "'a result \<Rightarrow> ('a \<Rightarrow> 'b result) \<Rightarrow> 'b result" where
  "bind_result m f = (case m of Inl e \<Rightarrow> Inl e | Inr x \<Rightarrow> f x)"

text \<open>Reading the block behind a non-null pointer.\<close>

definition load :: "'v state \<Rightarrow> addr \<Rightarrow> 'v ControlBlockBase result" where
  "load s a =
     (if a < length (blocks s) \<and> delete_block_calls (blocks s ! a) = 0
      then Inr (blocks s ! a) else Inl UseAfterFree)"

text \<open>\<open>call c f\<close> is the member call \<^verbatim>\<open>c->f()\<close> through a control-block pointer.\<close>

definition call ::
  "addr ptr \<Rightarrow> ('v ControlBlockBase \<Rightarrow> 'v ControlBlockBase result) \<Rightarrow> 'v state \<Rightarrow> 'v state result"
where
  "call c f s =
     (case c of
        nullptr \<Rightarrow> Inl NullDereference
      | Ptr a \<Rightarrow>
          bind_result (load s a) (\<lambda>b.
          bind_result (f b) (\<lambda>b'.
          Inr (s\<lparr>blocks := (blocks s)[a := b']\<rparr>))))"

text \<open>The member \<^verbatim>\<open>ctl_block_\<close> of the SharedPtr object \<open>p\<close>, read and written.\<close>

definition ctl_block :: "'v state \<Rightarrow> nat \<Rightarrow> addr ptr result" where
  "ctl_block s p = (if p < length (shared s) then Inr (shared s ! p) else Inl NoSuchObject)"

definition set_ctl_block :: "nat \<Rightarrow> addr ptr \<Rightarrow> 'v state \<Rightarrow> 'v state" where
  "set_ctl_block p c s = s\<lparr>shared := (shared s)[p := c]\<rparr>"

text \<open>The same for the WeakPtr object \<open>w\<close>.\<close>

definition weak_ctl_block :: "'v state \<Rightarrow> nat \<Rightarrow> addr ptr result" where
  "weak_ctl_block s w = (if w < length (weak s) then Inr (weak s ! w) else Inl NoSuchObject)"

definition set_weak_ctl_block :: "nat \<Rightarrow> addr ptr \<Rightarrow> 'v state \<Rightarrow> 'v state" where
  "set_weak_ctl_block w c s = s\<lparr>weak := (weak s)[w := c]\<rparr>"

section \<open>The two control blocks\<close>

text \<open>
  \<^verbatim>\<open>PtrControlBlock::make_block\<close>: one \<^verbatim>\<open>allocate(blk_alloc, 1)\<close>, then the block is
  constructed in place around the caller's pointer; both counters start at 0.
\<close>

definition PtrControlBlock_make_block :: "vaddr ptr \<Rightarrow> 'v state \<Rightarrow> addr \<times> 'v state" where
  "PtrControlBlock_make_block d s =
     (let block = length (blocks s) in
      (block,
       s\<lparr>blocks := blocks s @
          [\<lparr>data = d, strong_count = 0, weak_count = 0, variant = PtrControlBlock,
            embedded = None, delete_data_calls = 0, delete_block_calls = 0\<rparr>]\<rparr>))"

text \<open>
  The arguments of the managed type's constructor. A constructor can tell more of an
  argument than what it holds: which object the expression refers to (it may keep the
  address), whether the expression is an lvalue or an rvalue (it selects the overload),
  and, by counting in the argument type's own constructors, how many copy or move
  constructions lie between the caller's object and the one it is given. \<open>T\<close>, the
  constructor of the managed type, is a function of the argument list as it sees it.
\<close>

datatype category = lvalue | rvalue

datatype place = Caller nat | Parameter_of_make_block nat | Parameter_of_constructor nat

record 'a argument =
  object :: place
  category :: category
  contents :: 'a
  constructions :: nat

text \<open>
  A parameter pack taken by value, \<^verbatim>\<open>Ts... args\<close>: every parameter is a new object of the
  called function, copy- or move-constructed from its argument, and its name is an lvalue.
\<close>

definition by_value :: "(nat \<Rightarrow> place) \<Rightarrow> 'a argument list \<Rightarrow> 'a argument list" where
  "by_value parameter args =
     map (\<lambda>(i, a). \<lparr>object = parameter i, category = lvalue, contents = contents a,
                      constructions = Suc (constructions a)\<rparr>)
       (enumerate 0 args)"

text \<open>
  \<^verbatim>\<open>std::forward<Ts>(args)...\<close> on such a pack, where every \<^verbatim>\<open>Ts\<close> is an object type: rvalues
  of the parameters.
\<close>

definition forward_values :: "'a argument list \<Rightarrow> 'a argument list" where
  "forward_values args = map (\<lambda>a. a\<lparr>category := rvalue\<rparr>) args"

text \<open>\<^verbatim>\<open>new T(args...)\<close> hands the caller's arguments to \<^verbatim>\<open>T\<close>'s constructor as they are.\<close>

definition new_expression :: "('a argument list \<Rightarrow> 'v) \<Rightarrow> 'a argument list \<Rightarrow> 'v" where
  "new_expression T args = T args"

text \<open>
  The constructor \<^verbatim>\<open>ValueControlBlock(Alloc alloc, Ts... args)\<close> for the block at address
  \<open>this\<close>: it takes the pack by value, starts from \<^verbatim>\<open>ControlBlockBase(nullptr)\<close>, builds
  \<^verbatim>\<open>value(std::forward<Ts>(args)...)\<close> inside the block and then runs
  \<^verbatim>\<open>set_data(&value)\<close>.
\<close>

definition ValueControlBlock_ctor ::
  "('a argument list \<Rightarrow> 'v) \<Rightarrow> 'a argument list \<Rightarrow> addr \<Rightarrow> 'v ControlBlockBase"
where
  "ValueControlBlock_ctor T args this =
     (let args = by_value Parameter_of_constructor args in
      set_data (Ptr (Embedded this))
        \<lparr>data = nullptr, strong_count = 0, weak_count = 0, variant = ValueControlBlock,
         embedded = Some (T (forward_values args)),
         delete_data_calls = 0, delete_block_calls = 0\<rparr>)"

text \<open>
  \<^verbatim>\<open>ValueControlBlock::make_block(Alloc alloc, Ts... args)\<close>: it takes the pack by value as
  well, makes one \<^verbatim>\<open>allocate(blk_alloc, 1)\<close> and constructs the block in place from
  \<^verbatim>\<open>std::forward<Ts>(args)...\<close>.
\<close>

definition ValueControlBlock_make_block ::
  "('a argument list \<Rightarrow> 'v) \<Rightarrow> 'a argument list \<Rightarrow> 'v state \<Rightarrow> addr \<times> 'v state"
where
  "ValueControlBlock_make_block T args s =
     (let args = by_value Parameter_of_make_block args;
          block = length (blocks s) in
      (block, s\<lparr>blocks := blocks s @ [ValueControlBlock_ctor T (forward_values args) block]\<rparr>))"

section \<open>SharedPtr\<close>

text \<open>\<^verbatim>\<open>SharedPtr()\<close> and \<^verbatim>\<open>SharedPtr(std::nullptr_t)\<close>.\<close>

definition SharedPtr_default :: "'v state \<Rightarrow> nat \<times> 'v state" where
  "SharedPtr_default s = (length (shared s), s\<lparr>shared := shared s @ [nullptr]\<rparr>)"

text \<open>The private \<^verbatim>\<open>SharedPtr(detail::ControlBlockBase* ctl_block)\<close>.\<close>

definition SharedPtr_ctl :: "addr ptr \<Rightarrow> 'v state \<Rightarrow> (nat \<times> 'v state) result" where
  "SharedPtr_ctl c s =
     bind_result (if c \<noteq> nullptr then call c add_strong_link s else Inr s) (\<lambda>s1.
     Inr (length (shared s1), s1\<lparr>shared := shared s1 @ [c]\<rparr>))"

definition use_count :: "nat \<Rightarrow> 'v state \<Rightarrow> size_t result" where
  "use_count p s =
     bind_result (ctl_block s p) (\<lambda>c.
       case c of
         nullptr \<Rightarrow> Inr 0
       | Ptr a \<Rightarrow> bind_result (load s a) (\<lambda>b. Inr (get_use_count b)))"

definition get :: "nat \<Rightarrow> 'v state \<Rightarrow> vaddr ptr result" where
  "get p s =
     bind_result (ctl_block s p) (\<lambda>c.
       case c of
         nullptr \<Rightarrow> Inr nullptr
       | Ptr a \<Rightarrow> bind_result (load s a) (\<lambda>b. Inr (get_data b)))"

definition SharedPtr_reset :: "nat \<Rightarrow> 'v state \<Rightarrow> 'v state result" where
  "SharedPtr_reset p s =
     bind_result (ctl_block s p) (\<lambda>c.
     bind_result (if c \<noteq> nullptr then call c remove_strong_link s else Inr s) (\<lambda>s1.
     Inr (set_ctl_block p nullptr s1)))"

text \<open>\<^verbatim>\<open>~SharedPtr() { reset(); }\<close>\<close>

definition SharedPtr_destroy :: "nat \<Rightarrow> 'v state \<Rightarrow> 'v state result" where
  "SharedPtr_destroy p s = SharedPtr_reset p s"

text \<open>
  \<^verbatim>\<open>SharedPtr(const SharedPtr& other)\<close>; the converting
  \<^verbatim>\<open>SharedPtr(const SharedPtr<U>& other)\<close> has the same body.
\<close>

definition SharedPtr_copy :: "nat \<Rightarrow> 'v state \<Rightarrow> (nat \<times> 'v state) result" where
  "SharedPtr_copy other s = bind_result (ctl_block s other) (\<lambda>c. SharedPtr_ctl c s)"

text \<open>
  \<^verbatim>\<open>SharedPtr(SharedPtr&& other)\<close>; the converting \<^verbatim>\<open>SharedPtr(SharedPtr<U>&& other)\<close>
  has the same body.
\<close>

definition SharedPtr_move :: "nat \<Rightarrow> 'v state \<Rightarrow> (nat \<times> 'v state) result" where
  "SharedPtr_move other s =
     bind_result (ctl_block s other) (\<lambda>c.
     bind_result (SharedPtr_ctl c s) (\<lambda>(p, s1).
     bind_result (SharedPtr_reset other s1) (\<lambda>s2.
     Inr (p, s2))))"

text \<open>\<^verbatim>\<open>SharedPtr& operator=(const SharedPtr& other)\<close>\<close>

definition SharedPtr_copy_assign :: "nat \<Rightarrow> nat \<Rightarrow> 'v state \<Rightarrow> 'v state result" where
  "SharedPtr_copy_assign this other s =
     (if this = other then Inr s
      else
        bind_result (SharedPtr_reset this s) (\<lambda>s1.
        bind_result (ctl_block s1 other) (\<lambda>c.
        call c add_strong_link (set_ctl_block this c s1))))"

text \<open>\<^verbatim>\<open>template <std::derived_from<T> U> SharedPtr& operator=(const SharedPtr<U>& other)\<close>\<close>

definition SharedPtr_copy_assign_U :: "nat \<Rightarrow> nat \<Rightarrow> 'v state \<Rightarrow> 'v state result" where
  "SharedPtr_copy_assign_U this other s =
     bind_result (SharedPtr_reset this s) (\<lambda>s1.
     bind_result (ctl_block s1 other) (\<lambda>c.
     call c add_strong_link (set_ctl_block this c s1)))"

text \<open>\<^verbatim>\<open>std::swap(ctl_block_, other.ctl_block_)\<close>\<close>

definition swap_ctl_block :: "nat \<Rightarrow> nat \<Rightarrow> 'v state \<Rightarrow> 'v state result" where
  "swap_ctl_block this other s =
     bind_result (ctl_block s this) (\<lambda>a.
     bind_result (ctl_block s other) (\<lambda>b.
     Inr (set_ctl_block other a (set_ctl_block this b s))))"

text \<open>\<^verbatim>\<open>SharedPtr& operator=(SharedPtr&& other)\<close>\<close>

definition SharedPtr_move_assign :: "nat \<Rightarrow> nat \<Rightarrow> 'v state \<Rightarrow> 'v state result" where
  "SharedPtr_move_assign this other s =
     (if this = other then Inr s
      else
        bind_result (SharedPtr_reset this s) (\<lambda>s1.
        swap_ctl_block this other s1))"

text \<open>\<^verbatim>\<open>template <std::derived_from<T> U> SharedPtr& operator=(SharedPtr<U>&& other)\<close>\<close>

definition SharedPtr_move_assign_U :: "nat \<Rightarrow> nat \<Rightarrow> 'v state \<Rightarrow> 'v state result" where
  "SharedPtr_move_assign_U this other s =
     bind_result (SharedPtr_reset this s) (\<lambda>s1.
     swap_ctl_block this other s1)"

text \<open>
  \<^verbatim>\<open>SharedPtr(T* ptr, Deleter deleter, Alloc alloc)\<close> and the overload for a derived
  \<^verbatim>\<open>U* ptr\<close>: make the block, then delegate to the private constructor.
\<close>

definition SharedPtr_raw :: "vaddr ptr \<Rightarrow> 'v state \<Rightarrow> (nat \<times> 'v state) result" where
  "SharedPtr_raw d s =
     (let (block, s1) = PtrControlBlock_make_block d s in SharedPtr_ctl (Ptr block) s1)"

text \<open>
  The overload for a pointer \<^verbatim>\<open>U* ptr\<close> to a class derived from \<^verbatim>\<open>T\<close>, written out: the
  block is a \<^verbatim>\<open>PtrControlBlock<U, Deleter, Alloc>\<close>, whose base stores \<^verbatim>\<open>ptr\<close> as
  \<^verbatim>\<open>void*\<close>, the address unchanged.
\<close>

definition SharedPtr_raw_U :: "vaddr ptr \<Rightarrow> 'v state \<Rightarrow> (nat \<times> 'v state) result" where
  "SharedPtr_raw_U d s =
     (let (block, s1) = PtrControlBlock_make_block d s in SharedPtr_ctl (Ptr block) s1)"

text \<open>
  The conversion of a \<^verbatim>\<open>U*\<close> to a pointer to its base class \<^verbatim>\<open>T\<close>, which C++ makes
  where a \<^verbatim>\<open>U*\<close> is used as or compared with a \<^verbatim>\<open>T*\<close>: the null pointer stays null,
  every other address moves by the offset of the \<^verbatim>\<open>T\<close> subobject inside a \<^verbatim>\<open>U\<close>. The
  \<^verbatim>\<open>static_cast<T*>\<close> of a \<^verbatim>\<open>void*\<close> in \<^verbatim>\<open>get_data\<close> moves nothing.
\<close>

definition to_base :: "nat \<Rightarrow> vaddr ptr \<Rightarrow> vaddr ptr" where
  "to_base offset d =
     (case d of
        nullptr \<Rightarrow> nullptr
      | Ptr (Raw n) \<Rightarrow> Ptr (Raw (n + offset))
      | Ptr (Embedded a) \<Rightarrow> Ptr (Embedded a))"

text \<open>
  \<^verbatim>\<open>AllocateShared(const Alloc& alloc, Ts&&... args)\<close> takes forwarding references, so
  \<^verbatim>\<open>std::forward<Ts>(args)...\<close> passes the caller's arguments on as they are.
\<close>

definition AllocateShared ::
  "('a argument list \<Rightarrow> 'v) \<Rightarrow> 'a argument list \<Rightarrow> 'v state \<Rightarrow> (nat \<times> 'v state) result"
where
  "AllocateShared T args s =
     (let (block, s1) = ValueControlBlock_make_block T args s in SharedPtr_ctl (Ptr block) s1)"

text \<open>\<^verbatim>\<open>MakeShared\<close> is \<^verbatim>\<open>AllocateShared\<close> with \<^verbatim>\<open>std::allocator<T>()\<close>.\<close>

definition MakeShared ::
  "('a argument list \<Rightarrow> 'v) \<Rightarrow> 'a argument list \<Rightarrow> 'v state \<Rightarrow> (nat \<times> 'v state) result"
where
  "MakeShared T args s = AllocateShared T args s"

section \<open>WeakPtr\<close>

text \<open>The private \<^verbatim>\<open>WeakPtr(detail::ControlBlockBase* ctl_block)\<close>.\<close>

definition WeakPtr_ctl :: "addr ptr \<Rightarrow> 'v state \<Rightarrow> (nat \<times> 'v state) result" where
  "WeakPtr_ctl c s =
     bind_result (if c \<noteq> nullptr then call c add_weak_link s else Inr s) (\<lambda>s1.
     Inr (length (weak s1), s1\<lparr>weak := weak s1 @ [c]\<rparr>))"

text \<open>\<^verbatim>\<open>WeakPtr() : WeakPtr(nullptr) {}\<close>\<close>

definition WeakPtr_default :: "'v state \<Rightarrow> (nat \<times> 'v state) result" where
  "WeakPtr_default s = WeakPtr_ctl nullptr s"

definition WeakPtr_reset :: "nat \<Rightarrow> 'v state \<Rightarrow> 'v state result" where
  "WeakPtr_reset w s =
     bind_result (weak_ctl_block s w) (\<lambda>c.
       if c \<noteq> nullptr then
         bind_result (call c remove_weak_link s) (\<lambda>s1.
         Inr (set_weak_ctl_block w nullptr s1))
       else Inr s)"

text \<open>\<^verbatim>\<open>~WeakPtr() { reset(); }\<close>\<close>

definition WeakPtr_destroy :: "nat \<Rightarrow> 'v state \<Rightarrow> 'v state result" where
  "WeakPtr_destroy w s = WeakPtr_reset w s"

text \<open>
  Class \<^verbatim>\<open>WeakPtr\<close> declares no copy constructor and no copy assignment operator: a
  constructor or assignment template is never one. The compiler therefore supplies both,
  and for two objects of one type \<^verbatim>\<open>WeakPtr<T>\<close> overload resolution prefers them to the
  templates: \<^verbatim>\<open>WeakPtr<T> w2(w1)\<close> and \<^verbatim>\<open>w1 = w2\<close> copy the member \<^verbatim>\<open>ctl_block_\<close> and do
  nothing else. The constructor template \<^verbatim>\<open>WeakPtr(const WeakPtr<U>&)\<close> is selected by
  no expression (for \<^verbatim>\<open>U\<close> other than \<^verbatim>\<open>T\<close> it cannot read the private member of
  \<^verbatim>\<open>WeakPtr<U>\<close>) and is left out. Moving selects the templates below, whose rvalue
  reference binds better than the implicit copy operations' \<^verbatim>\<open>const WeakPtr&\<close>.
\<close>

definition WeakPtr_copy :: "nat \<Rightarrow> 'v state \<Rightarrow> (nat \<times> 'v state) result" where
  "WeakPtr_copy other s =
     bind_result (weak_ctl_block s other) (\<lambda>c.
     Inr (length (weak s), s\<lparr>weak := weak s @ [c]\<rparr>))"

definition WeakPtr_copy_assign :: "nat \<Rightarrow> nat \<Rightarrow> 'v state \<Rightarrow> 'v state result" where
  "WeakPtr_copy_assign this other s =
     bind_result (weak_ctl_block s this) (\<lambda>_.
     bind_result (weak_ctl_block s other) (\<lambda>c.
     Inr (set_weak_ctl_block this c s)))"

text \<open>\<^verbatim>\<open>WeakPtr(const SharedPtr<U>& owner)\<close>, for \<^verbatim>\<open>U\<close> the same as \<^verbatim>\<open>T\<close>.\<close>

definition WeakPtr_from_shared :: "nat \<Rightarrow> 'v state \<Rightarrow> (nat \<times> 'v state) result" where
  "WeakPtr_from_shared owner s = bind_result (ctl_block s owner) (\<lambda>c. WeakPtr_ctl c s)"

text \<open>
  \<^verbatim>\<open>template <std::derived_from<T> U> WeakPtr& operator=(const WeakPtr<U>& other)\<close>, which
  runs only where the template is named, as in \<^verbatim>\<open>w1.operator=<T>(w2)\<close>.
\<close>

definition WeakPtr_copy_assign_U :: "nat \<Rightarrow> nat \<Rightarrow> 'v state \<Rightarrow> 'v state result" where
  "WeakPtr_copy_assign_U this other s =
     bind_result (WeakPtr_reset this s) (\<lambda>s1.
     bind_result (weak_ctl_block s1 other) (\<lambda>c.
     call c add_weak_link (set_weak_ctl_block this c s1)))"

text \<open>\<^verbatim>\<open>WeakPtr(WeakPtr<U>&& other)\<close>, for \<^verbatim>\<open>U\<close> the same as \<^verbatim>\<open>T\<close>.\<close>

definition WeakPtr_move :: "nat \<Rightarrow> 'v state \<Rightarrow> (nat \<times> 'v state) result" where
  "WeakPtr_move other s =
     bind_result (weak_ctl_block s other) (\<lambda>c.
     bind_result (WeakPtr_ctl c s) (\<lambda>(w, s1).
     bind_result (WeakPtr_reset other s1) (\<lambda>s2.
     Inr (w, s2))))"

definition swap_weak_ctl_block :: "nat \<Rightarrow> nat \<Rightarrow> 'v state \<Rightarrow> 'v state result" where
  "swap_weak_ctl_block this other s =
     bind_result (weak_ctl_block s this) (\<lambda>a.
     bind_result (weak_ctl_block s other) (\<lambda>b.
     Inr (set_weak_ctl_block other a (set_weak_ctl_block this b s))))"

text \<open>\<^verbatim>\<open>WeakPtr& operator=(WeakPtr<U>&& other)\<close>, for \<^verbatim>\<open>U\<close> the same as \<^verbatim>\<open>T\<close>.\<close>

definition WeakPtr_move_assign :: "nat \<Rightarrow> nat \<Rightarrow> 'v state \<Rightarrow> 'v state result" where
  "WeakPtr_move_assign this other s =
     bind_result (WeakPtr_reset this s) (\<lambda>s1.
     swap_weak_ctl_block this other s1)"

definition expired :: "nat \<Rightarrow> 'v state \<Rightarrow> bool result" where
  "expired w s =
     bind_result (weak_ctl_block s w) (\<lambda>c.
       case c of
         nullptr \<Rightarrow> Inr True
       | Ptr a \<Rightarrow> bind_result (load s a) (\<lambda>b. Inr (\<not> is_valid b)))"

text \<open>\<^verbatim>\<open>SharedPtr<T> lock() const { return SharedPtr<T>(ctl_block_); }\<close>\<close>

definition lock :: "nat \<Rightarrow> 'v state \<Rightarrow> (nat \<times> 'v state) result" where
  "lock w s = bind_result (weak_ctl_block s w) (\<lambda>c. SharedPtr_ctl c s)"

section \<open>Programs and invariants\<close>

text \<open>
  Programs over the handles: the constructors, assignments, \<open>reset\<close> and destructors of
  both handle classes, the in-place factory and \<open>lock\<close>. A constructor's new object is
  the next index of its list; \<open>Emplace v\<close> is \<^verbatim>\<open>MakeShared<T>()\<close> for a type whose default
  constructor builds \<open>v\<close>.
\<close>

datatype 'v op =
    Default | FromRaw "vaddr ptr" | Emplace 'v | Copy nat | Move nat
  | CopyAssign nat nat | CopyAssignU nat nat | MoveAssign nat nat | MoveAssignU nat nat
  | Reset nat | Destroy nat
  | WeakDefault | WeakFromShared nat | WeakCopy nat | WeakMove nat
  | WeakCopyAssign nat nat | WeakCopyAssignU nat nat | WeakMoveAssign nat nat
  | WeakReset nat | WeakDestroy nat
  | Lock nat

fun exec :: "'v op \<Rightarrow> 'v state \<Rightarrow> 'v state result" where
  "exec Default s = Inr (snd (SharedPtr_default s))"
| "exec (FromRaw d) s = bind_result (SharedPtr_raw d s) (\<lambda>(p, s'). Inr s')"
| "exec (Emplace v) s =
     bind_result (MakeShared (\<lambda>_. v) ([] :: unit argument list) s) (\<lambda>(p, s'). Inr s')"
| "exec (Copy other) s = bind_result (SharedPtr_copy other s) (\<lambda>(p, s'). Inr s')"
| "exec (Move other) s = bind_result (SharedPtr_move other s) (\<lambda>(p, s'). Inr s')"
| "exec (CopyAssign this other) s = SharedPtr_copy_assign this other s"
| "exec (CopyAssignU this other) s = SharedPtr_copy_assign_U this other s"
| "exec (MoveAssign this other) s = SharedPtr_move_assign this other s"
| "exec (MoveAssignU this other) s = SharedPtr_move_assign_U this other s"
| "exec (Reset p) s = SharedPtr_reset p s"
| "exec (Destroy p) s = SharedPtr_destroy p s"
| "exec WeakDefault s = bind_result (WeakPtr_default s) (\<lambda>(w, s'). Inr s')"
| "exec (WeakFromShared owner) s = bind_result (WeakPtr_from_shared owner s) (\<lambda>(w, s'). Inr s')"
| "exec (WeakCopy other) s = bind_result (WeakPtr_copy other s) (\<lambda>(w, s'). Inr s')"
| "exec (WeakMove other) s = bind_result (WeakPtr_move other s) (\<lambda>(w, s'). Inr s')"
| "exec (WeakCopyAssign this other) s = WeakPtr_copy_assign this other s"
| "exec (WeakCopyAssignU this other) s = WeakPtr_copy_assign_U this other s"
| "exec (WeakMoveAssign this other) s = WeakPtr_move_assign this other s"
| "exec (WeakReset w) s = WeakPtr_reset w s"
| "exec (WeakDestroy w) s = WeakPtr_destroy w s"
| "exec (Lock w) s = bind_result (lock w s) (\<lambda>(p, s'). Inr s')"

fun run :: "'v op list \<Rightarrow> 'v state \<Rightarrow> 'v state result" where
  "run [] s = Inr s"
| "run (x # xs) s = bind_result (exec x s) (run xs)"

text \<open>
  The strong counts agree with the handles: every SharedPtr points into the heap, the
  strong count of every block is the number of SharedPtr objects that hold its address,
  and a block that has been freed has strong count 0.
\<close>

definition strong_ok :: "'v state \<Rightarrow> bool" where
  "strong_ok s \<longleftrightarrow>
     (\<forall>a. Ptr a \<in> set (shared s) \<longrightarrow> a < length (blocks s))
     \<and> (\<forall>a < length (blocks s).
          unat (strong_count (blocks s ! a)) = count_list (shared s) (Ptr a)
          \<and> (strong_count (blocks s ! a) = 0 \<or> delete_block_calls (blocks s ! a) = 0))"

text \<open>
  The life cycle the specification asks of a block: the value has been deleted, once,
  exactly when the strong count is 0, and the block has been freed, once, exactly when
  both counts are 0.
\<close>

definition lifecycle_ok :: "'v ControlBlockBase \<Rightarrow> bool" where
  "lifecycle_ok b \<longleftrightarrow>
     delete_data_calls b = (if strong_count b = 0 then 1 else 0)
     \<and> delete_block_calls b = (if strong_count b = 0 \<and> weak_count b = 0 then 1 else 0)"

text \<open>
  What is left of a state when one forgets where the managed values live: the counters,
  the call counts and the handles.
\<close>

definition forget_block :: "'v ControlBlockBase \<Rightarrow> 'v ControlBlockBase" where
  "forget_block b = b\<lparr>data := nullptr, variant := PtrControlBlock, embedded := None\<rparr>"

definition forget :: "'v state \<Rightarrow> 'v state" where
  "forget s = s\<lparr>blocks := map forget_block (blocks s)\<rparr>"

fun forget_op :: "'v op \<Rightarrow> 'v op" where
  "forget_op (FromRaw d) = FromRaw nullptr"
| "forget_op (Emplace v) = FromRaw nullptr"
| "forget_op x = x"

section \<open>Example states\<close>

text \<open>
  A block whose value is gone while one WeakPtr is left, and the state it lives in: what
  \<^verbatim>\<open>SharedPtr<T> a(raw); WeakPtr<T> w(a); a.reset();\<close> leaves behind.
\<close>

definition dead_block :: "nat ControlBlockBase" where
  "dead_block =
     \<lparr>data = Ptr (Raw 7), strong_count = 0, weak_count = 1, variant = PtrControlBlock,
      embedded = None, delete_data_calls = 1, delete_block_calls = 0\<rparr>"

definition weak_outlives :: "nat state" where
  "weak_outlives = \<lparr>blocks = [dead_block], shared = [nullptr], weak = [Ptr 0]\<rparr>"

text \<open>The same state after \<^verbatim>\<open>SharedPtr<T> b = w.lock();\<close> and then after \<^verbatim>\<open>b.reset();\<close>\<close>

definition resurrected :: "nat state" where
  "resurrected =
     \<lparr>blocks = [dead_block\<lparr>strong_count := 1\<rparr>], shared = [nullptr, Ptr 0], weak = [Ptr 0]\<rparr>"

definition deleted_twice :: "nat state" where
  "deleted_twice =
     \<lparr>blocks = [dead_block\<lparr>delete_data_calls := 2\<rparr>], shared = [nullptr, nullptr], weak = [Ptr 0]\<rparr>"

text \<open>Two owners of one block, an empty SharedPtr and an empty WeakPtr.\<close>

definition two_owners :: "nat state" where
  "two_owners =
     \<lparr>blocks =
        [\<lparr>data = Ptr (Raw 7), strong_count = 2, weak_count = 0, variant = PtrControlBlock,
          embedded = None, delete_data_calls = 0, delete_block_calls = 0\<rparr>],
      shared = [Ptr 0, Ptr 0, nullptr], weak = [nullptr]\<rparr>"

text \<open>
  \<open>two_owners\<close> after copying object 0, move-assigning object 1 to object 2, resetting
  object 0 and copy-assigning object 2 to object 1.
\<close>

definition three_owners :: "nat state" where
  "three_owners =
     \<lparr>blocks =
        [\<lparr>data = Ptr (Raw 7), strong_count = 3, weak_count = 0, variant = PtrControlBlock,
          embedded = None, delete_data_calls = 0, delete_block_calls = 0\<rparr>],
      shared = [nullptr, Ptr 0, Ptr 0, Ptr 0], weak = [nullptr]\<rparr>"

section \<open>Basic facts\<close>

lemma bind_result_simps [simp]:
  "bind_result (Inl e) f = Inl e"
  "bind_result (Inr x) f = f x"
  by (simp_all add: bind_result_def)

lemma bind_result_eq_Inr:
  "bind_result m f = Inr y \<longleftrightarrow> (\<exists>x. m = Inr x \<and> f x = Inr y)"
  by (cases m) simp_all

lemma not_is_valid_iff: "\<not> is_valid b \<longleftrightarrow> strong_count b = 0"
  by (simp add: is_valid_def get_use_count_def word_greater_zero_iff)

lemma list_update_same: "xs ! i = v \<Longrightarrow> xs[i := v] = xs"
  by (metis list_update_id)

lemma call_nullptr [simp]: "call nullptr f s = Inl NullDereference"
  by (simp add: call_def)

lemma call_fields:
  assumes "call c f s = Inr s'"
  shows "shared s' = shared s" and "weak s' = weak s" and "length (blocks s') = length (blocks s)"
  using assms by (auto simp: call_def bind_result_eq_Inr split: ptr.splits)

text \<open>What a member call through a non-null pointer does to the state.\<close>

lemma call_Ptr_Inr:
  assumes "call (Ptr a) f s = Inr s'"
  obtains b' where "a < length (blocks s)" and "delete_block_calls (blocks s ! a) = 0"
    and "f (blocks s ! a) = Inr b'" and "s' = s\<lparr>blocks := (blocks s)[a := b']\<rparr>"
  using assms by (auto simp: call_def load_def bind_result_eq_Inr split: if_splits)

lemma remove_strong_link_effect:
  assumes "is_valid b"
  shows "\<exists>b'. remove_strong_link b = Inr b'
     \<and> strong_count b' = strong_count b - 1 \<and> weak_count b' = weak_count b
     \<and> data b' = data b \<and> variant b' = variant b
     \<and> delete_data_calls b' = delete_data_calls b + (if strong_count b = 1 then 1 else 0)
     \<and> delete_block_calls b' =
          delete_block_calls b + (if strong_count b = 1 \<and> weak_count b = 0 then 1 else 0)"
  using assms
  by (simp add: remove_strong_link_def Let_def delete_data_def delete_block_def
      split: variant.split)

lemma remove_weak_link_effect:
  assumes "is_valid b \<or> 0 < weak_count b"
  shows "\<exists>b'. remove_weak_link b = Inr b'
     \<and> strong_count b' = strong_count b \<and> weak_count b' = weak_count b - 1
     \<and> data b' = data b \<and> variant b' = variant b
     \<and> delete_data_calls b' = delete_data_calls b
     \<and> delete_block_calls b' =
          delete_block_calls b + (if strong_count b = 0 \<and> weak_count b = 1 then 1 else 0)"
  using assms by (auto simp: remove_weak_link_def Let_def delete_block_def)

lemma SharedPtr_reset_handles:
  assumes "SharedPtr_reset p s = Inr s'"
  shows "shared s' = (shared s)[p := nullptr]" and "weak s' = weak s"
    and "length (blocks s') = length (blocks s)"
  using assms
  by (auto simp: SharedPtr_reset_def bind_result_eq_Inr set_ctl_block_def
      dest: call_fields split: if_splits)

lemma WeakPtr_reset_handles:
  assumes "WeakPtr_reset w s = Inr s'"
  shows "weak s' = (weak s)[w := nullptr]" and "shared s' = shared s"
    and "length (blocks s') = length (blocks s)"
  using assms
  by (auto simp: WeakPtr_reset_def bind_result_eq_Inr set_weak_ctl_block_def weak_ctl_block_def
      list_update_same dest: call_fields split: if_splits)

section \<open>The link operations\<close>

text \<open>
  C4, as the code has it. \<^verbatim>\<open>add_strong_link\<close> of \<^verbatim>\<open>SmartPointers.hpp\<close> carries no
  assertion: on every block, valid or not, it returns normally with the strong count
  one higher (modulo \<open>2^64\<close>) and nothing else changed.
\<close>

theorem add_strong_link_unchecked:
  "\<exists>b'. add_strong_link b = Inr b' \<and> strong_count b' = strong_count b + 1
     \<and> b' = b\<lparr>strong_count := strong_count b'\<rparr>"
  by (simp add: add_strong_link_def)

text \<open>
  C4 as stated fails: on the invalidated block \<open>dead_block\<close> (strong count 0, value
  deleted) the call is no assertion failure; it returns the block with strong count 1.
\<close>

theorem add_strong_link_dead_counterexample:
  "\<not> is_valid dead_block \<and> delete_data_calls dead_block = 1
   \<and> add_strong_link dead_block \<noteq> Inl AssertionFailed
   \<and> add_strong_link dead_block = Inr (dead_block\<lparr>strong_count := 1\<rparr>)"
  by (simp add: add_strong_link_def dead_block_def is_valid_def get_use_count_def)

text \<open>
  The unused header's \<^verbatim>\<open>add_strong_link\<close> is the checked one: an assertion failure on an
  invalidated block, the increment on a valid one. With it no block could get its first
  link from the count 0 at which \<^verbatim>\<open>SmartPointers.hpp\<close> starts.
\<close>

lemma add_strong_link_legacy_checked:
  "add_strong_link_legacy b =
     (if strong_count b = 0 then Inl AssertionFailed else add_strong_link b)"
  using not_is_valid_iff [of b] by (simp add: add_strong_link_legacy_def add_strong_link_def)

text \<open>
  The last strong link goes while weak links remain: the value is deleted, the block
  stays. The last weak link goes afterwards: the block is freed.
\<close>

lemma remove_last_strong_link:
  assumes "strong_count b = 1" and "weak_count b \<noteq> 0"
  shows "\<exists>b'. remove_strong_link b = Inr b' \<and> strong_count b' = 0
     \<and> delete_data_calls b' = Suc (delete_data_calls b)
     \<and> delete_block_calls b' = delete_block_calls b"
proof -
  from assms(1) have "is_valid b" by (simp add: is_valid_def get_use_count_def)
  from remove_strong_link_effect [OF this] assms show ?thesis by auto
qed

lemma remove_last_weak_link:
  assumes "strong_count b = 0" and "weak_count b = 1"
  shows "\<exists>b'. remove_weak_link b = Inr b' \<and> weak_count b' = 0
     \<and> delete_data_calls b' = delete_data_calls b
     \<and> delete_block_calls b' = Suc (delete_block_calls b)"
proof -
  from assms(2) have "is_valid b \<or> 0 < weak_count b" by simp
  from remove_weak_link_effect [OF this] assms show ?thesis by auto
qed

text \<open>
  \<open>lifecycle_ok\<close> is established by the first strong link and kept by every link
  operation, as long as a strong link is only added to a valid block and the counters
  do not wrap.
\<close>

lemma lifecycle_ok_first_link:
  "\<exists>b'. add_strong_link
      \<lparr>data = d, strong_count = 0, weak_count = 0, variant = v, embedded = e,
       delete_data_calls = 0, delete_block_calls = 0\<rparr> = Inr b' \<and> lifecycle_ok b'"
  by (simp add: add_strong_link_def lifecycle_ok_def)

lemma lifecycle_ok_add_strong_link:
  assumes "lifecycle_ok b" and "is_valid b" and "strong_count b + 1 \<noteq> 0"
    and "add_strong_link b = Inr b'"
  shows "lifecycle_ok b'"
proof -
  from assms(2) have "strong_count b \<noteq> 0" using not_is_valid_iff [of b] by simp
  with assms show ?thesis by (auto simp: add_strong_link_def lifecycle_ok_def)
qed

lemma lifecycle_ok_add_strong_link_legacy:
  assumes "lifecycle_ok b" and "strong_count b + 1 \<noteq> 0" and "add_strong_link_legacy b = Inr b'"
  shows "lifecycle_ok b'"
proof -
  from assms(3) have "is_valid b" and "add_strong_link b = Inr b'"
    by (auto simp: add_strong_link_legacy_def add_strong_link_def split: if_splits)
  with assms(1,2) show ?thesis by (auto intro: lifecycle_ok_add_strong_link)
qed

lemma lifecycle_ok_add_weak_link:
  assumes "lifecycle_ok b" and "is_valid b \<or> 0 < weak_count b" and "weak_count b + 1 \<noteq> 0"
    and "add_weak_link b = Inr b'"
  shows "lifecycle_ok b'"
proof -
  from assms(2) have "strong_count b \<noteq> 0 \<or> weak_count b \<noteq> 0"
    using not_is_valid_iff [of b] by (auto simp: word_greater_zero_iff)
  with assms show ?thesis by (auto simp: add_weak_link_def lifecycle_ok_def)
qed

lemma lifecycle_ok_remove_strong_link:
  assumes "lifecycle_ok b" and "remove_strong_link b = Inr b'"
  shows "lifecycle_ok b'"
proof -
  from assms(2) have v: "is_valid b"
    by (auto simp: remove_strong_link_def split: if_splits)
  then have "strong_count b \<noteq> 0" using not_is_valid_iff [of b] by simp
  with remove_strong_link_effect [OF v] assms show ?thesis
    by (auto simp: lifecycle_ok_def)
qed

lemma lifecycle_ok_remove_weak_link:
  assumes "lifecycle_ok b" and "remove_weak_link b = Inr b'"
  shows "lifecycle_ok b'"
proof -
  from assms(2) have v: "is_valid b \<or> 0 < weak_count b"
    by (auto simp: remove_weak_link_def split: if_splits)
  then have "strong_count b \<noteq> 0 \<or> weak_count b \<noteq> 0"
    using not_is_valid_iff [of b] by (auto simp: word_greater_zero_iff)
  with remove_weak_link_effect [OF v] assms show ?thesis
    by (auto simp: lifecycle_ok_def)
qed

section \<open>Construction\<close>

text \<open>
  Constructing a \<^verbatim>\<open>SharedPtr<T>\<close> from a \<^verbatim>\<open>T*\<close> \<open>d\<close> always returns; it allocates exactly
  one new block, a \<^verbatim>\<open>PtrControlBlock\<close>, at the end of the heap, and right after
  construction \<open>use_count\<close> is 1 and \<open>get\<close> is \<open>d\<close>.
\<close>

lemma SharedPtr_raw_use_count:
  "\<exists>p s'. SharedPtr_raw d s = Inr (p, s')
     \<and> use_count p s' = Inr 1 \<and> get p s' = Inr d
     \<and> ctl_block s' p = Inr (Ptr (length (blocks s)))
     \<and> length (blocks s') = Suc (length (blocks s))
     \<and> take (length (blocks s)) (blocks s') = blocks s
     \<and> variant (blocks s' ! length (blocks s)) = PtrControlBlock
     \<and> strong_count (blocks s' ! length (blocks s)) = 1"
  by (simp add: SharedPtr_raw_def PtrControlBlock_make_block_def SharedPtr_ctl_def call_def
      load_def add_strong_link_def use_count_def get_def ctl_block_def get_use_count_def
      get_data_def nth_append)

text \<open>
  From a pointer \<^verbatim>\<open>U*\<close> to a derived class the block and the count are the same, and
  \<open>get\<close> is the address that was given, as it is: no conversion to the base class is
  made on the way in or on the way out. That address is the given pointer, as a \<^verbatim>\<open>T*\<close>,
  only where the \<^verbatim>\<open>T\<close> subobject lies at offset 0.
\<close>

lemma SharedPtr_raw_U_address:
  "\<exists>p s'. SharedPtr_raw_U d s = Inr (p, s')
     \<and> use_count p s' = Inr 1 \<and> get p s' = Inr d
     \<and> length (blocks s') = Suc (length (blocks s))
     \<and> variant (blocks s' ! length (blocks s)) = PtrControlBlock
     \<and> strong_count (blocks s' ! length (blocks s)) = 1"
  by (simp add: SharedPtr_raw_U_def PtrControlBlock_make_block_def SharedPtr_ctl_def call_def
      load_def add_strong_link_def use_count_def get_def ctl_block_def get_use_count_def
      get_data_def nth_append)

lemma to_base_same: "to_base offset (Ptr (Raw n)) = Ptr (Raw n) \<longleftrightarrow> offset = 0"
  by (simp add: to_base_def)

text \<open>
  C5, for a pointer to a derived class whose base is not its first one.
  \<^verbatim>\<open>struct A { int a; }; struct B { int b; }; struct D : A, B {};\<close> puts the \<^verbatim>\<open>B\<close>
  subobject at offset 4. Let \<^verbatim>\<open>D* raw\<close> be address 8, so that \<^verbatim>\<open>raw\<close> as a \<^verbatim>\<open>B*\<close> is
  address 12. After \<^verbatim>\<open>SharedPtr<B> p(raw)\<close> the use count is 1, but \<^verbatim>\<open>p.get()\<close> is address
  8, which is not the given pointer: \<^verbatim>\<open>p.get() == raw\<close> is false.
\<close>

theorem SharedPtr_raw_U_get_unconverted:
  "bind_result (SharedPtr_raw_U (Ptr (Raw 8)) (init :: nat state)) (\<lambda>(p, s').
   bind_result (use_count p s') (\<lambda>n.
   bind_result (get p s') (\<lambda>g.
   Inr (n, g, to_base 4 (Ptr (Raw 8)), g = to_base 4 (Ptr (Raw 8)))))) =
   Inr (1, Ptr (Raw 8), Ptr (Raw 12), False)"
  by (simp add: SharedPtr_raw_U_def PtrControlBlock_make_block_def SharedPtr_ctl_def call_def
      load_def add_strong_link_def use_count_def get_def ctl_block_def get_use_count_def
      get_data_def init_def to_base_def)

section \<open>Reset and assignment\<close>

text \<open>
  C9. \<open>reset\<close> on a SharedPtr that is empty, or that refers to a live block \<open>b\<close> with
  a positive strong count, returns; afterwards the handle is empty (\<open>get\<close> is null,
  \<open>use_count\<close> is 0), a non-empty handle's block has had its strong count decremented
  once (with \<^verbatim>\<open>delete_data\<close> run if that was the last strong link, and
  \<^verbatim>\<open>delete_block\<close> too if no weak link is left), no other block or handle has changed,
  and a second \<open>reset\<close> changes nothing.
\<close>

theorem SharedPtr_reset_spec:
  assumes "ctl_block s p = Inr c"
    and "case c of nullptr \<Rightarrow> True | Ptr a \<Rightarrow> load s a = Inr b \<and> is_valid b"
  shows "\<exists>s'. SharedPtr_reset p s = Inr s'
     \<and> get p s' = Inr nullptr \<and> use_count p s' = Inr 0
     \<and> shared s' = (shared s)[p := nullptr] \<and> weak s' = weak s
     \<and> (case c of
          nullptr \<Rightarrow> blocks s' = blocks s
        | Ptr a \<Rightarrow>
            blocks s' = (blocks s)[a := blocks s' ! a]
            \<and> strong_count (blocks s' ! a) = strong_count b - 1
            \<and> weak_count (blocks s' ! a) = weak_count b
            \<and> delete_data_calls (blocks s' ! a) =
                delete_data_calls b + (if strong_count b = 1 then 1 else 0)
            \<and> delete_block_calls (blocks s' ! a) =
                delete_block_calls b + (if strong_count b = 1 \<and> weak_count b = 0 then 1 else 0))
     \<and> SharedPtr_reset p s' = Inr s'"
proof (cases c)
  case nullptr
  with assms(1) have "SharedPtr_reset p s = Inr s"
    by (auto simp: SharedPtr_reset_def ctl_block_def set_ctl_block_def list_update_same
        split: if_splits)
  with nullptr assms(1) show ?thesis
    by (auto simp: get_def use_count_def ctl_block_def list_update_same split: if_splits)
next
  case (Ptr a)
  with assms(2) have b: "load s a = Inr b" "is_valid b" by simp_all
  then have a: "a < length (blocks s)" "blocks s ! a = b"
    by (auto simp: load_def split: if_splits)
  from assms(1) have p: "p < length (shared s)"
    by (auto simp: ctl_block_def split: if_splits)
  from remove_strong_link_effect [OF b(2)] obtain b' where b': "remove_strong_link b = Inr b'"
    and eff: "strong_count b' = strong_count b - 1" "weak_count b' = weak_count b"
    "delete_data_calls b' = delete_data_calls b + (if strong_count b = 1 then 1 else 0)"
    "delete_block_calls b' =
       delete_block_calls b + (if strong_count b = 1 \<and> weak_count b = 0 then 1 else 0)"
    by blast
  define s' where "s' = set_ctl_block p nullptr (s\<lparr>blocks := (blocks s)[a := b']\<rparr>)"
  have r: "SharedPtr_reset p s = Inr s'"
    using assms(1) Ptr b b' by (simp add: SharedPtr_reset_def call_def s'_def)
  have "SharedPtr_reset p s' = Inr s'"
    using p by (simp add: SharedPtr_reset_def ctl_block_def s'_def set_ctl_block_def)
  with r Ptr a p eff show ?thesis
    by (simp add: s'_def set_ctl_block_def get_def use_count_def ctl_block_def)
qed

theorem SharedPtr_reset_spec_witness:
  "ctl_block two_owners 0 = Inr (Ptr 0)
   \<and> load two_owners 0 = Inr (blocks two_owners ! 0) \<and> is_valid (blocks two_owners ! 0)
   \<and> (\<exists>s'. SharedPtr_reset 0 two_owners = Inr s' \<and> use_count 0 s' = Inr 0
         \<and> strong_count (blocks s' ! 0) = 1 \<and> SharedPtr_reset 0 s' = Inr s')"
proof -
  have c: "ctl_block two_owners 0 = Inr (Ptr 0)"
    by (simp add: ctl_block_def two_owners_def)
  have l: "load two_owners 0 = Inr (blocks two_owners ! 0)" "is_valid (blocks two_owners ! 0)"
    by (simp_all add: load_def two_owners_def is_valid_def get_use_count_def)
  from l have h: "case Ptr 0 of nullptr \<Rightarrow> True
      | Ptr a \<Rightarrow> load two_owners a = Inr (blocks two_owners ! 0) \<and> is_valid (blocks two_owners ! 0)"
    by simp
  from SharedPtr_reset_spec [OF c h] obtain s' where
    "SharedPtr_reset 0 two_owners = Inr s'" "use_count 0 s' = Inr 0"
    "strong_count (blocks s' ! 0) = strong_count (blocks two_owners ! 0) - 1"
    "SharedPtr_reset 0 s' = Inr s'"
    by auto
  moreover have "strong_count (blocks two_owners ! 0) - 1 = 1"
    by (simp add: two_owners_def)
  ultimately show ?thesis using c l by auto
qed

text \<open>
  C6. \<^verbatim>\<open>p = std::move(p)\<close> selects \<^verbatim>\<open>operator=(SharedPtr&&)\<close>, which compares
  \<^verbatim>\<open>this\<close> with \<^verbatim>\<open>&other\<close> first: the state is left as it was, so \<open>p\<close> refers to
  the same block, with the same strong count.
\<close>

theorem self_move_assign_noop:
  "\<exists>s'. SharedPtr_move_assign p p s = Inr s' \<and> s' = s
     \<and> ctl_block s' p = ctl_block s p \<and> use_count p s' = use_count p s \<and> get p s' = get p s"
  by (simp add: SharedPtr_move_assign_def)

text \<open>
  The converting move-assignment does not compare \<^verbatim>\<open>this\<close> with \<^verbatim>\<open>&other\<close>. Were it ever
  entered with both the same object, it would be \<open>reset\<close>: the swap of a pointer with
  itself changes nothing after the handle has been emptied.
\<close>

lemma self_move_assign_U_is_reset:
  "SharedPtr_move_assign_U p p s = SharedPtr_reset p s"
proof (cases "SharedPtr_reset p s")
  case (Inl e)
  then show ?thesis by (simp add: SharedPtr_move_assign_U_def)
next
  case (Inr s1)
  then have p: "p < length (shared s1)" "shared s1 ! p = nullptr"
    by (auto simp: SharedPtr_reset_def bind_result_eq_Inr set_ctl_block_def ctl_block_def
        split: if_splits dest!: call_fields(1))
  then have "swap_ctl_block p p s1 = Inr s1"
    by (simp add: swap_ctl_block_def ctl_block_def set_ctl_block_def list_update_same)
  with Inr show ?thesis by (simp add: SharedPtr_move_assign_U_def)
qed

text \<open>
  C7, as the code has it, for SharedPtr. With an empty source the converting
  copy-assignment never returns normally: once the destination's \<open>reset\<close> is through,
  the member call goes through a null pointer. The same holds for the same-type
  copy-assignment when source and destination are two objects; assigning an object to
  itself returns at once, empty or not. Copy construction from an empty source returns a
  new empty handle and touches no block.
\<close>

theorem copy_assign_empty_source:
  assumes "ctl_block s other = Inr nullptr"
  shows "SharedPtr_copy_assign_U this other s =
           bind_result (SharedPtr_reset this s) (\<lambda>s1. Inl NullDereference)
     \<and> SharedPtr_copy_assign this other s =
           (if this = other then Inr s
            else bind_result (SharedPtr_reset this s) (\<lambda>s1. Inl NullDereference))
     \<and> SharedPtr_copy other s = Inr (length (shared s), s\<lparr>shared := shared s @ [nullptr]\<rparr>)"
proof -
  from assms have o: "other < length (shared s)" "shared s ! other = nullptr"
    by (auto simp: ctl_block_def split: if_splits)
  have U: "SharedPtr_copy_assign_U this other s =
      bind_result (SharedPtr_reset this s) (\<lambda>s1. Inl NullDereference)"
  proof (cases "SharedPtr_reset this s")
    case (Inl e)
    then show ?thesis by (simp add: SharedPtr_copy_assign_U_def)
  next
    case (Inr s1)
    from SharedPtr_reset_handles(1) [OF Inr] o have "ctl_block s1 other = Inr nullptr"
      by (cases "this = other") (simp_all add: ctl_block_def)
    with Inr show ?thesis by (simp add: SharedPtr_copy_assign_U_def)
  qed
  from U have S: "SharedPtr_copy_assign this other s =
      (if this = other then Inr s
       else bind_result (SharedPtr_reset this s) (\<lambda>s1. Inl NullDereference))"
    by (simp add: SharedPtr_copy_assign_def SharedPtr_copy_assign_U_def)
  from assms have C: "SharedPtr_copy other s =
      Inr (length (shared s), s\<lparr>shared := shared s @ [nullptr]\<rparr>)"
    by (simp add: SharedPtr_copy_def SharedPtr_ctl_def)
  from U S C show ?thesis by blast
qed

theorem copy_assign_empty_source_witness:
  "ctl_block two_owners 2 = Inr nullptr
   \<and> SharedPtr_copy_assign_U 0 2 two_owners = Inl NullDereference
   \<and> SharedPtr_copy_assign 0 2 two_owners = Inl NullDereference
   \<and> SharedPtr_copy 2 two_owners =
       Inr (3, two_owners\<lparr>shared := [Ptr 0, Ptr 0, nullptr, nullptr]\<rparr>)"
proof -
  have c: "ctl_block two_owners 2 = Inr nullptr"
    by (simp add: ctl_block_def two_owners_def)
  have r: "\<exists>s1. SharedPtr_reset 0 two_owners = Inr s1"
    by (simp add: SharedPtr_reset_def ctl_block_def two_owners_def call_def load_def
        remove_strong_link_def is_valid_def get_use_count_def)
  have l: "shared two_owners @ [nullptr] = [Ptr 0, Ptr 0, nullptr, nullptr]"
    "length (shared two_owners) = 3"
    by (simp_all add: two_owners_def)
  from copy_assign_empty_source [OF c, of 0] r c l show ?thesis
    by auto
qed

text \<open>
  C7 as stated fails for the same-type overload: the SharedPtr object 2 of
  \<open>two_owners\<close> is empty, and assigning it to itself is well-defined.
\<close>

theorem copy_assign_self_empty_counterexample:
  "ctl_block two_owners 2 = Inr nullptr \<and> SharedPtr_copy_assign 2 2 two_owners = Inr two_owners"
  by (simp add: ctl_block_def two_owners_def SharedPtr_copy_assign_def)

text \<open>
  The WeakPtr assignment template has the same unchecked body, but it runs only where it
  is named. What \<^verbatim>\<open>w1 = w2\<close> and \<^verbatim>\<open>WeakPtr<T> w2(w1)\<close> run are the implicit copy
  operations: they return on an empty source as on any other, and they count no link.
\<close>

lemma WeakPtr_copy_assign_U_empty_source:
  assumes "weak_ctl_block s other = Inr nullptr"
  shows "WeakPtr_copy_assign_U this other s =
           bind_result (WeakPtr_reset this s) (\<lambda>s1. Inl NullDereference)"
proof (cases "WeakPtr_reset this s")
  case (Inl e)
  then show ?thesis by (simp add: WeakPtr_copy_assign_U_def)
next
  case (Inr s1)
  from assms have w: "other < length (weak s)" "weak s ! other = nullptr"
    by (auto simp: weak_ctl_block_def split: if_splits)
  from WeakPtr_reset_handles(1) [OF Inr] w have "weak_ctl_block s1 other = Inr nullptr"
    by (cases "this = other") (simp_all add: weak_ctl_block_def)
  with Inr show ?thesis by (simp add: WeakPtr_copy_assign_U_def)
qed

lemma WeakPtr_copy_counts_no_link:
  assumes "weak_ctl_block s this = Inr c" and "weak_ctl_block s other = Inr c'"
  shows "WeakPtr_copy_assign this other s = Inr (s\<lparr>weak := (weak s)[this := c']\<rparr>)"
    and "WeakPtr_copy other s = Inr (length (weak s), s\<lparr>weak := weak s @ [c']\<rparr>)"
  using assms by (simp_all add: WeakPtr_copy_assign_def WeakPtr_copy_def set_weak_ctl_block_def)

text \<open>
  So a copied WeakPtr is not counted. In \<open>weak_outlives\<close>, copy the WeakPtr and destroy
  the copy: the weak count falls from 1 to 0 and the block is freed, and the destructor
  of the original then goes through a pointer to the freed block.
\<close>

lemma WeakPtr_copy_then_destroy:
  "bind_result (WeakPtr_copy 0 weak_outlives) (\<lambda>(w, s1).
   bind_result (WeakPtr_destroy w s1) (\<lambda>s2.
   Inr (w, weak s1, weak_count (blocks s1 ! 0), delete_block_calls (blocks s2 ! 0),
        WeakPtr_destroy 0 s2))) =
   Inr (1, [Ptr 0, Ptr 0], 1, 1, Inl UseAfterFree)"
  by (simp add: WeakPtr_copy_def WeakPtr_destroy_def WeakPtr_reset_def weak_ctl_block_def
      weak_outlives_def dead_block_def call_def load_def remove_weak_link_def is_valid_def
      get_use_count_def delete_block_def set_weak_ctl_block_def)

section \<open>Expiry and promotion\<close>



lemma lock_empty:
  assumes "weak_ctl_block s w = Inr nullptr"
  shows "expired w s = Inr True"
    and "lock w s = Inr (length (shared s), s\<lparr>shared := shared s @ [nullptr]\<rparr>)"
  using assms by (simp_all add: expired_def lock_def SharedPtr_ctl_def)

lemma lock_live:
  assumes "weak_ctl_block s w = Inr (Ptr a)" and "load s a = Inr b" and "is_valid b"
  shows "expired w s = Inr False"
    and "lock w s = Inr (length (shared s),
           s\<lparr>blocks := (blocks s)[a := b\<lparr>strong_count := strong_count b + 1\<rparr>],
             shared := shared s @ [Ptr a]\<rparr>)"
  using assms by (simp_all add: expired_def lock_def SharedPtr_ctl_def call_def add_strong_link_def)

lemma lock_expired:
  assumes "weak_ctl_block s w = Inr (Ptr a)" and "load s a = Inr b" and "\<not> is_valid b"
  shows "expired w s = Inr True"
    and "lock w s = Inr (length (shared s),
           s\<lparr>blocks := (blocks s)[a := b\<lparr>strong_count := 1\<rparr>], shared := shared s @ [Ptr a]\<rparr>)"
  using assms
  by (simp_all add: expired_def lock_def SharedPtr_ctl_def call_def add_strong_link_def
      not_is_valid_iff)

text \<open>
  C1 fails on the code. \<open>weak_outlives\<close> is reached by constructing a SharedPtr from a
  raw pointer, taking a WeakPtr from it and resetting the SharedPtr. There \<open>expired\<close>
  is true, yet \<open>lock\<close> returns a SharedPtr that is not empty: \<open>get\<close> is the address of
  the deleted value, \<open>use_count\<close> is 1, and the strong count of the block went from 0
  to 1.
\<close>

theorem lock_expired_resurrects:
  "bind_result (SharedPtr_raw (Ptr (Raw 7)) init) (\<lambda>(a, s).
     bind_result (WeakPtr_from_shared a s) (\<lambda>(w, s). SharedPtr_reset a s)) = Inr weak_outlives
   \<and> expired 0 weak_outlives = Inr True
   \<and> lock 0 weak_outlives = Inr (1, resurrected)
   \<and> get 1 resurrected = Inr (Ptr (Raw 7))
   \<and> use_count 1 resurrected = Inr 1
   \<and> strong_count (blocks weak_outlives ! 0) = 0
   \<and> strong_count (blocks resurrected ! 0) = 1"
  by (simp add: SharedPtr_raw_def PtrControlBlock_make_block_def SharedPtr_ctl_def call_def
      load_def add_strong_link_def init_def WeakPtr_from_shared_def ctl_block_def WeakPtr_ctl_def
      add_weak_link_def SharedPtr_reset_def remove_strong_link_def is_valid_def
      get_use_count_def delete_data_def set_ctl_block_def weak_outlives_def dead_block_def
      expired_def weak_ctl_block_def lock_def resurrected_def get_def get_data_def use_count_def)

text \<open>
  C3 fails on the code, by the promotion of C1. In \<open>resurrected\<close>, the state after
  \<open>lock\<close> on the expired WeakPtr, the block is valid again although its value has been
  deleted; resetting the promoted SharedPtr runs \<^verbatim>\<open>delete_data\<close> a second time.
\<close>

theorem lock_expired_deletes_twice:
  "lock 0 weak_outlives = Inr (1, resurrected)
   \<and> is_valid (blocks resurrected ! 0)
   \<and> delete_data_calls (blocks resurrected ! 0) = 1
   \<and> \<not> lifecycle_ok (blocks resurrected ! 0)
   \<and> SharedPtr_reset 1 resurrected = Inr deleted_twice
   \<and> strong_count (blocks deleted_twice ! 0) = 0
   \<and> delete_data_calls (blocks deleted_twice ! 0) = 2"
  by (simp add: SharedPtr_ctl_def call_def load_def add_strong_link_def ctl_block_def
      SharedPtr_reset_def remove_strong_link_def is_valid_def get_use_count_def delete_data_def
      set_ctl_block_def weak_outlives_def dead_block_def weak_ctl_block_def lock_def
      resurrected_def deleted_twice_def lifecycle_ok_def)

section \<open>Counting the owners\<close>

lemma count_list_update:
  "i < length xs \<Longrightarrow>
     count_list (xs[i := v]) x + (if xs ! i = x then 1 else 0) =
     count_list xs x + (if v = x then 1 else 0)"
proof (induction xs arbitrary: i)
  case Nil
  then show ?case by simp
next
  case (Cons y ys)
  show ?case
  proof (cases i)
    case 0
    then show ?thesis by simp
  next
    case (Suc j)
    with Cons.prems have "j < length ys" by simp
    from Cons.IH [OF this] Suc show ?thesis by (auto split: if_splits)
  qed
qed

lemma count_list_pos: "i < length xs \<Longrightarrow> xs ! i = x \<Longrightarrow> 0 < count_list xs x"
  by (metis count_list_0_iff gr0I nth_mem)

text \<open>Swapping two handles moves no link.\<close>

lemma count_list_swap:
  assumes "i < length xs" and "j < length xs"
  shows "count_list (xs[i := xs ! j, j := xs ! i]) x = count_list xs x"
proof (cases "i = j")
  case True
  then show ?thesis by simp
next
  case False
  let ?ys = "xs[i := xs ! j]"
  from assms have j: "j < length ?ys" by simp
  from False assms have "?ys ! j = xs ! j" by simp
  with count_list_update [OF j, of "xs ! i" x] count_list_update [OF assms(1), of "xs ! j" x]
  show ?thesis by (auto split: if_splits)
qed

lemma unat_inc:
  fixes x :: size_t
  assumes "unat x + 1 < 2 ^ 64"
  shows "unat (x + 1) = unat x + 1"
  using assms unat_add_lem [of x 1] by simp

lemma unat_dec:
  fixes x :: size_t
  assumes "x \<noteq> 0"
  shows "unat (x - 1) + 1 = unat x"
  using assms by (simp add: unat_minus_one unat_gt_0 Suc_leI)

lemma strong_ok_init: "strong_ok init"
  by (simp add: strong_ok_def init_def)

lemma strong_ok_live:
  assumes "strong_ok s" and "p < length (shared s)" and "shared s ! p = Ptr a"
  shows "a < length (blocks s)" and "strong_count (blocks s ! a) \<noteq> 0"
    and "delete_block_calls (blocks s ! a) = 0"
proof -
  from assms(2,3) have m: "Ptr a \<in> set (shared s)" by (metis nth_mem)
  with assms(1) show a: "a < length (blocks s)" by (auto simp: strong_ok_def)
  from assms(2,3) have "0 < count_list (shared s) (Ptr a)" by (rule count_list_pos)
  with assms(1) a have "0 < unat (strong_count (blocks s ! a))" by (simp add: strong_ok_def)
  then show n: "strong_count (blocks s ! a) \<noteq> 0" by (auto simp: unat_gt_0)
  with assms(1) a show "delete_block_calls (blocks s ! a) = 0" by (auto simp: strong_ok_def)
qed

text \<open>
  The step all operations rest on: one block is replaced and the handles change so that
  the counts agree again.
\<close>

lemma strong_ok_update:
  assumes ok: "strong_ok s" and a: "a < length (blocks s)"
    and cnt: "unat (strong_count b') = count_list hs (Ptr a)"
    and fr: "strong_count b' = 0 \<or> delete_block_calls b' = 0"
    and others: "\<And>a'. a' \<noteq> a \<Longrightarrow> count_list hs (Ptr a') = count_list (shared s) (Ptr a')"
    and rng: "set hs \<subseteq> insert nullptr (insert (Ptr a) (set (shared s)))"
  shows "strong_ok (s\<lparr>blocks := (blocks s)[a := b'], shared := hs\<rparr>)"
  unfolding strong_ok_def
proof (intro conjI allI impI)
  fix x assume "Ptr x \<in> set (shared (s\<lparr>blocks := (blocks s)[a := b'], shared := hs\<rparr>))"
  with rng have "x = a \<or> Ptr x \<in> set (shared s)" by auto
  with ok a show "x < length (blocks (s\<lparr>blocks := (blocks s)[a := b'], shared := hs\<rparr>))"
    by (auto simp: strong_ok_def)
next
  fix x assume "x < length (blocks (s\<lparr>blocks := (blocks s)[a := b'], shared := hs\<rparr>))"
  then have x: "x < length (blocks s)" by simp
  show "unat (strong_count (blocks (s\<lparr>blocks := (blocks s)[a := b'], shared := hs\<rparr>) ! x)) =
        count_list (shared (s\<lparr>blocks := (blocks s)[a := b'], shared := hs\<rparr>)) (Ptr x)"
    using ok x a cnt others [of x] by (cases "x = a") (auto simp: strong_ok_def)
  show "strong_count (blocks (s\<lparr>blocks := (blocks s)[a := b'], shared := hs\<rparr>) ! x) = 0
        \<or> delete_block_calls (blocks (s\<lparr>blocks := (blocks s)[a := b'], shared := hs\<rparr>) ! x) = 0"
    using ok x a fr by (cases "x = a") (auto simp: strong_ok_def)
qed

lemma strong_ok_weak [simp]: "strong_ok (s\<lparr>weak := ws\<rparr>) = strong_ok s"
  by (simp add: strong_ok_def)

lemma strong_ok_block:
  assumes "strong_ok s" and "a < length (blocks s)"
    and "strong_count b' = strong_count (blocks s ! a)"
    and "strong_count b' = 0 \<or> delete_block_calls b' = 0"
  shows "strong_ok (s\<lparr>blocks := (blocks s)[a := b']\<rparr>)"
proof -
  from assms have "unat (strong_count b') = count_list (shared s) (Ptr a)"
    by (simp add: strong_ok_def)
  from strong_ok_update [OF assms(1,2) this assms(4)] show ?thesis
    by auto
qed

lemma strong_ok_handles:
  assumes "strong_ok s"
    and "\<And>a. count_list hs (Ptr a) = count_list (shared s) (Ptr a)"
    and "set hs \<subseteq> insert nullptr (set (shared s))"
  shows "strong_ok (s\<lparr>shared := hs\<rparr>)"
  using assms by (auto simp: strong_ok_def)

text \<open>A fresh block has no owner yet.\<close>

lemma strong_ok_make_block:
  assumes "strong_ok s" and "strong_count b = 0"
  shows "strong_ok (s\<lparr>blocks := blocks s @ [b]\<rparr>)"
proof -
  from assms(1) have "Ptr (length (blocks s)) \<notin> set (shared s)"
    by (auto simp: strong_ok_def)
  then have "count_list (shared s) (Ptr (length (blocks s))) = 0" by (rule count_notin)
  with assms show ?thesis
    by (auto simp: strong_ok_def nth_append less_Suc_eq)
qed

lemma strong_ok_call_weak:
  assumes ok: "strong_ok s" and c: "call c f s = Inr s'"
    and f: "\<And>b b'. f b = Inr b' \<Longrightarrow> delete_block_calls b = 0 \<Longrightarrow>
              strong_count b' = strong_count b
              \<and> (strong_count b' = 0 \<or> delete_block_calls b' = 0)"
  shows "strong_ok s'"
proof (cases c)
  case nullptr
  with c show ?thesis by (simp add: call_def)
next
  case (Ptr a)
  with c obtain b' where a: "a < length (blocks s)" "delete_block_calls (blocks s ! a) = 0"
    and b': "f (blocks s ! a) = Inr b'" and s': "s' = s\<lparr>blocks := (blocks s)[a := b']\<rparr>"
    by (auto elim: call_Ptr_Inr)
  note fb = f [OF b' a(2)]
  from strong_ok_block [OF ok a(1) conjunct1 [OF fb] conjunct2 [OF fb]] s' show ?thesis
    by simp
qed

lemma strong_ok_add_weak_link:
  assumes "strong_ok s" and "call c add_weak_link s = Inr s'"
  shows "strong_ok s'"
  using assms by (rule strong_ok_call_weak) (auto simp: add_weak_link_def)

lemma strong_ok_remove_weak_link:
  assumes "strong_ok s" and "call c remove_weak_link s = Inr s'"
  shows "strong_ok s'"
  using assms
  by (rule strong_ok_call_weak)
     (auto simp: remove_weak_link_def Let_def delete_block_def split: if_splits)

lemma strong_ok_SharedPtr_ctl:
  assumes ok: "strong_ok s" and c: "SharedPtr_ctl c s = Inr (p, s')"
    and len: "length (shared s') < 2 ^ 64"
  shows "strong_ok s'" and "shared s' = shared s @ [c]" and "weak s' = weak s"
    and "p = length (shared s)"
proof -
  have "strong_ok s' \<and> shared s' = shared s @ [c] \<and> weak s' = weak s \<and> p = length (shared s)"
  proof (cases c)
    case nullptr
    with c have s': "s' = s\<lparr>shared := shared s @ [nullptr]\<rparr>" "p = length (shared s)"
      by (auto simp: SharedPtr_ctl_def)
    from strong_ok_handles [OF ok, of "shared s @ [nullptr]"] s' nullptr show ?thesis
      by auto
  next
    case (Ptr a)
    with c obtain s1 where s1: "call (Ptr a) add_strong_link s = Inr s1"
      and s': "s' = s1\<lparr>shared := shared s1 @ [Ptr a]\<rparr>" "p = length (shared s1)"
      by (auto simp: SharedPtr_ctl_def bind_result_eq_Inr)
    from s1 obtain b' where a: "a < length (blocks s)" "delete_block_calls (blocks s ! a) = 0"
      and b': "add_strong_link (blocks s ! a) = Inr b'"
      and s1': "s1 = s\<lparr>blocks := (blocks s)[a := b']\<rparr>"
      by (auto elim: call_Ptr_Inr)
    from b' have sc: "strong_count b' = strong_count (blocks s ! a) + 1"
      and dc: "delete_block_calls b' = delete_block_calls (blocks s ! a)"
      by (auto simp: add_strong_link_def)
    from s' s1' have eq: "s' = s\<lparr>blocks := (blocks s)[a := b'], shared := shared s @ [Ptr a]\<rparr>"
      "p = length (shared s)"
      by simp_all
    from ok a have "unat (strong_count (blocks s ! a)) = count_list (shared s) (Ptr a)"
      by (simp add: strong_ok_def)
    moreover have "count_list (shared s) (Ptr a) \<le> length (shared s)"
      by (rule count_le_length)
    moreover from len eq have "length (shared s) + 1 < 2 ^ 64" by simp
    ultimately have "unat (strong_count b') = count_list (shared s @ [Ptr a]) (Ptr a)"
      using sc unat_inc [of "strong_count (blocks s ! a)"] by simp
    from strong_ok_update [OF ok a(1) this] dc a(2) eq Ptr
    show ?thesis by auto
  qed
  then show "strong_ok s'" and "shared s' = shared s @ [c]" and "weak s' = weak s"
    and "p = length (shared s)"
    by simp_all
qed

lemma strong_ok_SharedPtr_reset:
  assumes ok: "strong_ok s" and r: "SharedPtr_reset p s = Inr s'"
  shows "strong_ok s'"
proof -
  from r obtain c s1 where c: "ctl_block s p = Inr c"
    and s1: "(if c \<noteq> nullptr then call c remove_strong_link s else Inr s) = Inr s1"
    and s': "s' = set_ctl_block p nullptr s1"
    by (auto simp: SharedPtr_reset_def bind_result_eq_Inr)
  from c have p: "p < length (shared s)" "shared s ! p = c"
    by (auto simp: ctl_block_def split: if_splits)
  show ?thesis
  proof (cases c)
    case nullptr
    with s1 s' p have "s' = s\<lparr>shared := shared s\<rparr>"
      by (simp add: set_ctl_block_def list_update_same)
    with ok show ?thesis by simp
  next
    case (Ptr a)
    with s1 have "call (Ptr a) remove_strong_link s = Inr s1" by simp
    then obtain b' where a: "a < length (blocks s)" "delete_block_calls (blocks s ! a) = 0"
      and b': "remove_strong_link (blocks s ! a) = Inr b'"
      and s1': "s1 = s\<lparr>blocks := (blocks s)[a := b']\<rparr>"
      by (auto elim: call_Ptr_Inr)
    from b' have v: "is_valid (blocks s ! a)"
      by (auto simp: remove_strong_link_def split: if_splits)
    then have nz: "strong_count (blocks s ! a) \<noteq> 0" using not_is_valid_iff by blast
    from remove_strong_link_effect [OF v] b' a(2)
    have sc: "strong_count b' = strong_count (blocks s ! a) - 1"
      and fr: "strong_count b' = 0 \<or> delete_block_calls b' = 0"
      by auto
    from s' s1' have eq: "s' = s\<lparr>blocks := (blocks s)[a := b'], shared := (shared s)[p := nullptr]\<rparr>"
      by (simp add: set_ctl_block_def)
    from count_list_update [OF p(1), of nullptr "Ptr a"] p(2) Ptr
    have "count_list ((shared s)[p := nullptr]) (Ptr a) + 1 = count_list (shared s) (Ptr a)"
      by simp
    moreover from ok a have "unat (strong_count (blocks s ! a)) = count_list (shared s) (Ptr a)"
      by (simp add: strong_ok_def)
    ultimately have cnt: "unat (strong_count b') = count_list ((shared s)[p := nullptr]) (Ptr a)"
      using sc unat_dec [OF nz] by simp
    have others: "count_list ((shared s)[p := nullptr]) (Ptr a') = count_list (shared s) (Ptr a')"
      if "a' \<noteq> a" for a'
      using count_list_update [OF p(1), of nullptr "Ptr a'"] p(2) Ptr that by simp
    have "set ((shared s)[p := nullptr]) \<subseteq> insert nullptr (insert (Ptr a) (set (shared s)))"
      using set_update_subset_insert [of "shared s" p nullptr] by auto
    from strong_ok_update [OF ok a(1) cnt fr others this] eq show ?thesis by simp
  qed
qed

text \<open>Where the strong counts agree with the handles, \<open>reset\<close> returns on every SharedPtr.\<close>

lemma SharedPtr_reset_returns:
  assumes ok: "strong_ok s" and p: "p < length (shared s)"
  shows "\<exists>s'. SharedPtr_reset p s = Inr s'"
proof (cases "shared s ! p")
  case nullptr
  with p show ?thesis by (simp add: SharedPtr_reset_def ctl_block_def)
next
  case (Ptr a)
  note live = strong_ok_live [OF ok p Ptr]
  then have l: "load s a = Inr (blocks s ! a)" by (simp add: load_def)
  from live(2) have "is_valid (blocks s ! a)" using not_is_valid_iff by blast
  from remove_strong_link_effect [OF this] obtain b' where
    "remove_strong_link (blocks s ! a) = Inr b'" by blast
  with p Ptr l show ?thesis by (simp add: SharedPtr_reset_def ctl_block_def call_def)
qed

text \<open>
  The tail of a copy-assignment: the destination, empty after its \<open>reset\<close>, takes the
  source's pointer, and the block gets one more strong link.
\<close>

lemma strong_ok_relink:
  assumes ok: "strong_ok s" and dst: "this < length (shared s)" "shared s ! this = nullptr"
    and c: "call (Ptr a) add_strong_link (set_ctl_block this (Ptr a) s) = Inr s'"
    and len: "length (shared s) < 2 ^ 64"
  shows "strong_ok s'"
proof -
  let ?s = "set_ctl_block this (Ptr a) s"
  from c obtain b' where a: "a < length (blocks ?s)" "delete_block_calls (blocks ?s ! a) = 0"
    and b': "add_strong_link (blocks ?s ! a) = Inr b'"
    and s': "s' = ?s\<lparr>blocks := (blocks ?s)[a := b']\<rparr>"
    by (auto elim: call_Ptr_Inr)
  from a have a': "a < length (blocks s)" "delete_block_calls (blocks s ! a) = 0"
    by (simp_all add: set_ctl_block_def)
  from b' have sc: "strong_count b' = strong_count (blocks s ! a) + 1"
    and dc: "delete_block_calls b' = delete_block_calls (blocks s ! a)"
    by (auto simp: add_strong_link_def set_ctl_block_def)
  from s' have eq: "s' = s\<lparr>blocks := (blocks s)[a := b'], shared := (shared s)[this := Ptr a]\<rparr>"
    by (simp add: set_ctl_block_def)
  from count_list_update [OF dst(1), of "Ptr a" "Ptr a"] dst(2)
  have up: "count_list ((shared s)[this := Ptr a]) (Ptr a) = count_list (shared s) (Ptr a) + 1"
    by simp
  have "count_list ((shared s)[this := Ptr a]) (Ptr a) \<le> length ((shared s)[this := Ptr a])"
    by (rule count_le_length)
  with up len have "count_list (shared s) (Ptr a) + 1 < 2 ^ 64" by simp
  moreover from ok a' have "unat (strong_count (blocks s ! a)) = count_list (shared s) (Ptr a)"
    by (simp add: strong_ok_def)
  ultimately have cnt: "unat (strong_count b') = count_list ((shared s)[this := Ptr a]) (Ptr a)"
    using sc up unat_inc [of "strong_count (blocks s ! a)"] by simp
  have others: "count_list ((shared s)[this := Ptr a]) (Ptr a') = count_list (shared s) (Ptr a')"
    if "a' \<noteq> a" for a'
    using count_list_update [OF dst(1), of "Ptr a" "Ptr a'"] dst(2) that by simp
  have rng: "set ((shared s)[this := Ptr a]) \<subseteq> insert nullptr (insert (Ptr a) (set (shared s)))"
    using set_update_subset_insert [of "shared s" this "Ptr a"] by auto
  from strong_ok_update [OF ok a'(1) cnt _ others rng] dc a'(2) eq show ?thesis by simp
qed

lemma strong_ok_copy_assign_U:
  assumes ok: "strong_ok s" and r: "SharedPtr_copy_assign_U this other s = Inr s'"
    and len: "length (shared s) < 2 ^ 64"
  shows "strong_ok s'" and "length (shared s') = length (shared s)"
proof -
  from r obtain s1 c where s1: "SharedPtr_reset this s = Inr s1"
    and c: "ctl_block s1 other = Inr c"
    and call: "call c add_strong_link (set_ctl_block this c s1) = Inr s'"
    by (auto simp: SharedPtr_copy_assign_U_def bind_result_eq_Inr)
  from call obtain a where a: "c = Ptr a" by (cases c) simp_all
  from s1 have dst: "this < length (shared s)"
    by (auto simp: SharedPtr_reset_def ctl_block_def bind_result_eq_Inr split: if_splits)
  note h = SharedPtr_reset_handles [OF s1]
  from strong_ok_relink [OF strong_ok_SharedPtr_reset [OF ok s1], of this a s'] call a dst h len
  show "strong_ok s'" by simp
  from call_fields(1) [OF call] h show "length (shared s') = length (shared s)"
    by (simp add: set_ctl_block_def)
qed

lemma strong_ok_swap:
  assumes ok: "strong_ok s" and r: "swap_ctl_block this other s = Inr s'"
  shows "strong_ok s'" and "length (shared s') = length (shared s)"
proof -
  from r have i: "this < length (shared s)" and j: "other < length (shared s)"
    and s': "s' = s\<lparr>shared := (shared s)[this := shared s ! other, other := shared s ! this]\<rparr>"
    by (auto simp: swap_ctl_block_def ctl_block_def set_ctl_block_def bind_result_eq_Inr
        split: if_splits)
  have "set ((shared s)[this := shared s ! other, other := shared s ! this]) \<subseteq> set (shared s)"
    using i j by (metis set_swap subset_refl)
  then have "set ((shared s)[this := shared s ! other, other := shared s ! this])
      \<subseteq> insert nullptr (set (shared s))"
    by auto
  from strong_ok_handles [OF ok count_list_swap [OF i j] this] s' show "strong_ok s'" by simp
  from s' show "length (shared s') = length (shared s)" by simp
qed

lemma strong_ok_move_assign_U:
  assumes ok: "strong_ok s" and r: "SharedPtr_move_assign_U this other s = Inr s'"
  shows "strong_ok s'" and "length (shared s') = length (shared s)"
proof -
  from r obtain s1 where s1: "SharedPtr_reset this s = Inr s1"
    and sw: "swap_ctl_block this other s1 = Inr s'"
    by (auto simp: SharedPtr_move_assign_U_def bind_result_eq_Inr)
  from strong_ok_swap [OF strong_ok_SharedPtr_reset [OF ok s1] sw] SharedPtr_reset_handles [OF s1]
  show "strong_ok s'" and "length (shared s') = length (shared s)" by simp_all
qed

lemma strong_ok_move:
  assumes ok: "strong_ok s" and r: "SharedPtr_move other s = Inr (p, s')"
    and len: "length (shared s') < 2 ^ 64"
  shows "strong_ok s'" and "length (shared s') = Suc (length (shared s))"
proof -
  from r obtain c s1 where c: "SharedPtr_ctl c s = Inr (p, s1)"
    and s': "SharedPtr_reset other s1 = Inr s'"
    by (auto simp: SharedPtr_move_def bind_result_eq_Inr)
  note h = SharedPtr_reset_handles [OF s']
  from h len have "length (shared s1) < 2 ^ 64" by simp
  note k = strong_ok_SharedPtr_ctl [OF ok c this]
  from strong_ok_SharedPtr_reset [OF k(1) s'] show "strong_ok s'" .
  from h k show "length (shared s') = Suc (length (shared s))" by simp
qed

lemma strong_ok_SharedPtr_raw:
  assumes "strong_ok s" and "SharedPtr_raw d s = Inr (p, s')" and "length (shared s') < 2 ^ 64"
  shows "strong_ok s'" and "length (shared s') = Suc (length (shared s))"
proof -
  let ?s1 = "snd (PtrControlBlock_make_block d s)"
  from assms(2) have c: "SharedPtr_ctl (Ptr (length (blocks s))) ?s1 = Inr (p, s')"
    by (simp add: SharedPtr_raw_def PtrControlBlock_make_block_def Let_def)
  from assms(1) have "strong_ok ?s1"
    by (simp add: PtrControlBlock_make_block_def Let_def strong_ok_make_block)
  note k = strong_ok_SharedPtr_ctl [OF this c assms(3)]
  from k(1) show "strong_ok s'" .
  from k(2) show "length (shared s') = Suc (length (shared s))"
    by (simp add: PtrControlBlock_make_block_def Let_def)
qed

lemma strong_ok_MakeShared:
  assumes "strong_ok s" and "MakeShared T args s = Inr (p, s')" and "length (shared s') < 2 ^ 64"
  shows "strong_ok s'" and "length (shared s') = Suc (length (shared s))"
proof -
  let ?s1 = "snd (ValueControlBlock_make_block T args s)"
  from assms(2) have c: "SharedPtr_ctl (Ptr (length (blocks s))) ?s1 = Inr (p, s')"
    by (simp add: MakeShared_def AllocateShared_def ValueControlBlock_make_block_def Let_def)
  from assms(1) have "strong_ok ?s1"
    by (simp add: ValueControlBlock_make_block_def ValueControlBlock_ctor_def Let_def
        set_data_def strong_ok_make_block)
  note k = strong_ok_SharedPtr_ctl [OF this c assms(3)]
  from k(1) show "strong_ok s'" .
  from k(2) show "length (shared s') = Suc (length (shared s))"
    by (simp add: ValueControlBlock_make_block_def Let_def)
qed

text \<open>The operations on WeakPtr objects leave the SharedPtr objects and the strong counts alone.\<close>

lemma strong_ok_WeakPtr_ctl:
  assumes "strong_ok s" and "WeakPtr_ctl c s = Inr (w, s')"
  shows "strong_ok s'" and "shared s' = shared s"
proof -
  from assms(2) obtain s1 where s1: "(if c \<noteq> nullptr then call c add_weak_link s else Inr s) = Inr s1"
    and s': "s' = s1\<lparr>weak := weak s1 @ [c]\<rparr>"
    by (auto simp: WeakPtr_ctl_def bind_result_eq_Inr)
  from s1 assms(1) have "strong_ok s1 \<and> shared s1 = shared s"
    by (auto split: if_splits dest: strong_ok_add_weak_link call_fields)
  with s' show "strong_ok s'" and "shared s' = shared s" by simp_all
qed

lemma strong_ok_WeakPtr_reset:
  assumes "strong_ok s" and "WeakPtr_reset w s = Inr s'"
  shows "strong_ok s'" and "shared s' = shared s"
proof -
  from assms(2) show "shared s' = shared s" by (rule WeakPtr_reset_handles)
  from assms show "strong_ok s'"
    by (auto simp: WeakPtr_reset_def bind_result_eq_Inr set_weak_ctl_block_def
        split: if_splits dest: strong_ok_remove_weak_link)
qed

lemma strong_ok_WeakPtr_copy_assign_U:
  assumes "strong_ok s" and "WeakPtr_copy_assign_U this other s = Inr s'"
  shows "strong_ok s'" and "shared s' = shared s"
proof -
  from assms(2) obtain s1 c where s1: "WeakPtr_reset this s = Inr s1"
    and call: "call c add_weak_link (set_weak_ctl_block this c s1) = Inr s'"
    by (auto simp: WeakPtr_copy_assign_U_def bind_result_eq_Inr)
  note k = strong_ok_WeakPtr_reset [OF assms(1) s1]
  from k(1) have "strong_ok (set_weak_ctl_block this c s1)"
    by (simp add: set_weak_ctl_block_def)
  from strong_ok_add_weak_link [OF this call] show "strong_ok s'" .
  from call_fields(1) [OF call] k(2) show "shared s' = shared s"
    by (simp add: set_weak_ctl_block_def)
qed

lemma strong_ok_WeakPtr_copy:
  assumes "strong_ok s"
  shows "WeakPtr_copy other s = Inr (w, s') \<Longrightarrow> strong_ok s' \<and> shared s' = shared s"
    and "WeakPtr_copy_assign this other s = Inr s' \<Longrightarrow> strong_ok s' \<and> shared s' = shared s"
  using assms
  by (auto simp: WeakPtr_copy_def WeakPtr_copy_assign_def bind_result_eq_Inr
      set_weak_ctl_block_def)

lemma strong_ok_swap_weak:
  assumes "strong_ok s" and "swap_weak_ctl_block this other s = Inr s'"
  shows "strong_ok s'" and "shared s' = shared s"
  using assms
  by (auto simp: swap_weak_ctl_block_def set_weak_ctl_block_def bind_result_eq_Inr)

lemma strong_ok_WeakPtr_move_assign:
  assumes "strong_ok s" and "WeakPtr_move_assign this other s = Inr s'"
  shows "strong_ok s'" and "shared s' = shared s"
proof -
  from assms(2) obtain s1 where s1: "WeakPtr_reset this s = Inr s1"
    and sw: "swap_weak_ctl_block this other s1 = Inr s'"
    by (auto simp: WeakPtr_move_assign_def bind_result_eq_Inr)
  note k = strong_ok_WeakPtr_reset [OF assms(1) s1]
  from strong_ok_swap_weak [OF k(1) sw] k(2) show "strong_ok s'" and "shared s' = shared s"
    by simp_all
qed

lemma strong_ok_WeakPtr_move:
  assumes "strong_ok s" and "WeakPtr_move other s = Inr (w, s')"
  shows "strong_ok s'" and "shared s' = shared s"
proof -
  from assms(2) obtain c s1 where c: "WeakPtr_ctl c s = Inr (w, s1)"
    and r: "WeakPtr_reset other s1 = Inr s'"
    by (auto simp: WeakPtr_move_def bind_result_eq_Inr)
  note k = strong_ok_WeakPtr_ctl [OF assms(1) c]
  from strong_ok_WeakPtr_reset [OF k(1) r] k(2) show "strong_ok s'" and "shared s' = shared s"
    by simp_all
qed

lemma strong_ok_exec:
  assumes ok: "strong_ok s" and x: "exec x s = Inr s'" and len: "length (shared s') < 2 ^ 64"
  shows "strong_ok s'"
proof (cases x)
  case Default
  with x have "s' = s\<lparr>shared := shared s @ [nullptr]\<rparr>" by (simp add: SharedPtr_default_def)
  with strong_ok_handles [OF ok, of "shared s @ [nullptr]"] show ?thesis by auto
next
  case (FromRaw d)
  with x ok len show ?thesis
    by (auto simp: bind_result_eq_Inr dest: strong_ok_SharedPtr_raw(1))
next
  case (Emplace v)
  with x ok len show ?thesis
    by (auto simp: bind_result_eq_Inr dest: strong_ok_MakeShared(1))
next
  case (Copy other)
  with x ok len show ?thesis
    by (auto simp: bind_result_eq_Inr SharedPtr_copy_def dest: strong_ok_SharedPtr_ctl(1))
next
  case (Move other)
  with x ok len show ?thesis
    by (auto simp: bind_result_eq_Inr dest: strong_ok_move(1))
next
  case (CopyAssign this other)
  show ?thesis
  proof (cases "this = other")
    case True
    with CopyAssign x ok show ?thesis by (simp add: SharedPtr_copy_assign_def)
  next
    case False
    with CopyAssign x have u: "SharedPtr_copy_assign_U this other s = Inr s'"
      by (simp add: SharedPtr_copy_assign_def SharedPtr_copy_assign_U_def)
    then have "length (shared s') = length (shared s)"
      by (auto simp: SharedPtr_copy_assign_U_def bind_result_eq_Inr set_ctl_block_def
          dest!: call_fields(1) SharedPtr_reset_handles(1))
    with len strong_ok_copy_assign_U(1) [OF ok u] show ?thesis by simp
  qed
next
  case (CopyAssignU this other)
  with x have u: "SharedPtr_copy_assign_U this other s = Inr s'" by simp
  then have "length (shared s') = length (shared s)"
    by (auto simp: SharedPtr_copy_assign_U_def bind_result_eq_Inr set_ctl_block_def
        dest!: call_fields(1) SharedPtr_reset_handles(1))
  with len strong_ok_copy_assign_U(1) [OF ok u] show ?thesis by simp
next
  case (MoveAssign this other)
  with x ok show ?thesis
    by (cases "this = other")
       (auto simp: SharedPtr_move_assign_def SharedPtr_move_assign_U_def [symmetric]
         dest: strong_ok_move_assign_U(1))
next
  case (MoveAssignU this other)
  with x ok show ?thesis by (auto dest: strong_ok_move_assign_U(1))
next
  case (Reset p)
  with x ok show ?thesis by (auto dest: strong_ok_SharedPtr_reset)
next
  case (Destroy p)
  with x ok show ?thesis by (auto simp: SharedPtr_destroy_def dest: strong_ok_SharedPtr_reset)
next
  case WeakDefault
  with x ok show ?thesis
    by (auto simp: bind_result_eq_Inr WeakPtr_default_def dest: strong_ok_WeakPtr_ctl(1))
next
  case (WeakFromShared owner)
  with x ok show ?thesis
    by (auto simp: bind_result_eq_Inr WeakPtr_from_shared_def dest: strong_ok_WeakPtr_ctl(1))
next
  case (WeakCopy other)
  with x ok show ?thesis
    by (auto simp: bind_result_eq_Inr dest: strong_ok_WeakPtr_copy(1))
next
  case (WeakMove other)
  with x ok show ?thesis
    by (auto simp: bind_result_eq_Inr dest: strong_ok_WeakPtr_move(1))
next
  case (WeakCopyAssign this other)
  with x ok show ?thesis by (auto dest: strong_ok_WeakPtr_copy(2))
next
  case (WeakCopyAssignU this other)
  with x ok show ?thesis by (auto dest: strong_ok_WeakPtr_copy_assign_U(1))
next
  case (WeakMoveAssign this other)
  with x ok show ?thesis by (auto dest: strong_ok_WeakPtr_move_assign(1))
next
  case (WeakReset w)
  with x ok show ?thesis by (auto dest: strong_ok_WeakPtr_reset(1))
next
  case (WeakDestroy w)
  with x ok show ?thesis by (auto simp: WeakPtr_destroy_def dest: strong_ok_WeakPtr_reset(1))
next
  case (Lock w)
  with x ok len show ?thesis
    by (auto simp: bind_result_eq_Inr lock_def dest: strong_ok_SharedPtr_ctl(1))
qed

text \<open>No operation removes a SharedPtr object from the list.\<close>

lemma SharedPtr_ctl_length:
  assumes "SharedPtr_ctl c s = Inr (p, s')"
  shows "length (shared s') = Suc (length (shared s))"
  using assms
  by (auto simp: SharedPtr_ctl_def bind_result_eq_Inr split: if_splits dest: call_fields(1))

lemma WeakPtr_ctl_shared:
  assumes "WeakPtr_ctl c s = Inr (w, s')"
  shows "shared s' = shared s"
  using assms
  by (auto simp: WeakPtr_ctl_def bind_result_eq_Inr split: if_splits dest: call_fields(1))

lemma SharedPtr_reset_length:
  assumes "SharedPtr_reset p s = Inr s'"
  shows "length (shared s') = length (shared s)"
  using SharedPtr_reset_handles(1) [OF assms] by simp

lemma swap_ctl_block_length:
  assumes "swap_ctl_block this other s = Inr s'"
  shows "length (shared s') = length (shared s)"
  using assms by (auto simp: swap_ctl_block_def set_ctl_block_def bind_result_eq_Inr)

lemma copy_assign_U_length:
  assumes "SharedPtr_copy_assign_U this other s = Inr s'"
  shows "length (shared s') = length (shared s)"
  using assms
  by (auto simp: SharedPtr_copy_assign_U_def bind_result_eq_Inr set_ctl_block_def
      dest!: call_fields(1) SharedPtr_reset_handles(1))

lemma move_assign_U_length:
  assumes "SharedPtr_move_assign_U this other s = Inr s'"
  shows "length (shared s') = length (shared s)"
  using assms
  by (auto simp: SharedPtr_move_assign_U_def bind_result_eq_Inr
      dest!: swap_ctl_block_length SharedPtr_reset_length)

lemma exec_length:
  assumes "exec x s = Inr s'"
  shows "length (shared s) \<le> length (shared s')"
proof (cases x)
  case Default
  with assms show ?thesis by (auto simp: SharedPtr_default_def)
next
  case (FromRaw d)
  with assms show ?thesis
    by (auto simp: bind_result_eq_Inr SharedPtr_raw_def PtrControlBlock_make_block_def Let_def
        dest!: SharedPtr_ctl_length)
next
  case (Emplace v)
  with assms show ?thesis
    by (auto simp: bind_result_eq_Inr MakeShared_def AllocateShared_def
        ValueControlBlock_make_block_def Let_def dest!: SharedPtr_ctl_length)
next
  case (Copy other)
  with assms show ?thesis
    by (auto simp: bind_result_eq_Inr SharedPtr_copy_def dest!: SharedPtr_ctl_length)
next
  case (Move other)
  with assms show ?thesis
    by (auto simp: bind_result_eq_Inr SharedPtr_move_def
        dest!: SharedPtr_ctl_length SharedPtr_reset_length)
next
  case (CopyAssign this other)
  with assms show ?thesis
    by (cases "this = other")
       (auto simp: SharedPtr_copy_assign_def SharedPtr_copy_assign_U_def [symmetric]
         dest!: copy_assign_U_length)
next
  case (CopyAssignU this other)
  with assms show ?thesis by (auto dest!: copy_assign_U_length)
next
  case (MoveAssign this other)
  with assms show ?thesis
    by (cases "this = other")
       (auto simp: SharedPtr_move_assign_def SharedPtr_move_assign_U_def [symmetric]
         dest!: move_assign_U_length)
next
  case (MoveAssignU this other)
  with assms show ?thesis by (auto dest!: move_assign_U_length)
next
  case (Reset p)
  with assms show ?thesis by (auto dest!: SharedPtr_reset_length)
next
  case (Destroy p)
  with assms show ?thesis by (auto simp: SharedPtr_destroy_def dest!: SharedPtr_reset_length)
next
  case WeakDefault
  with assms show ?thesis
    by (auto simp: bind_result_eq_Inr WeakPtr_default_def dest!: WeakPtr_ctl_shared)
next
  case (WeakFromShared owner)
  with assms show ?thesis
    by (auto simp: bind_result_eq_Inr WeakPtr_from_shared_def dest!: WeakPtr_ctl_shared)
next
  case (WeakCopy other)
  with assms show ?thesis
    by (auto simp: bind_result_eq_Inr WeakPtr_copy_def)
next
  case (WeakMove other)
  with assms show ?thesis
    by (auto simp: bind_result_eq_Inr WeakPtr_move_def
        dest!: WeakPtr_ctl_shared WeakPtr_reset_handles(2))
next
  case (WeakCopyAssign this other)
  with assms show ?thesis
    by (auto simp: bind_result_eq_Inr WeakPtr_copy_assign_def set_weak_ctl_block_def)
next
  case (WeakCopyAssignU this other)
  with assms show ?thesis
    by (auto simp: bind_result_eq_Inr WeakPtr_copy_assign_U_def set_weak_ctl_block_def
        dest!: call_fields(1) WeakPtr_reset_handles(2))
next
  case (WeakMoveAssign this other)
  with assms show ?thesis
    by (auto simp: bind_result_eq_Inr WeakPtr_move_assign_def swap_weak_ctl_block_def
        set_weak_ctl_block_def dest!: WeakPtr_reset_handles(2))
next
  case (WeakReset w)
  with assms show ?thesis by (auto dest!: WeakPtr_reset_handles(2))
next
  case (WeakDestroy w)
  with assms show ?thesis by (auto simp: WeakPtr_destroy_def dest!: WeakPtr_reset_handles(2))
next
  case (Lock w)
  with assms show ?thesis
    by (auto simp: bind_result_eq_Inr lock_def dest!: SharedPtr_ctl_length)
qed

lemma run_length:
  "run ops s = Inr s' \<Longrightarrow> length (shared s) \<le> length (shared s')"
proof (induction ops arbitrary: s)
  case Nil
  then show ?case by simp
next
  case (Cons x xs)
  then obtain s1 where s1: "exec x s = Inr s1" and r: "run xs s1 = Inr s'"
    by (auto simp: bind_result_eq_Inr)
  from exec_length [OF s1] Cons.IH [OF r] show ?case by simp
qed

lemma strong_ok_run:
  "strong_ok s \<Longrightarrow> run ops s = Inr s' \<Longrightarrow> length (shared s') < 2 ^ 64 \<Longrightarrow> strong_ok s'"
proof (induction ops arbitrary: s)
  case Nil
  then show ?case by simp
next
  case (Cons x xs)
  from Cons.prems(2) obtain s1 where s1: "exec x s = Inr s1" and r: "run xs s1 = Inr s'"
    by (auto simp: bind_result_eq_Inr)
  from run_length [OF r] Cons.prems(3) have "length (shared s1) < 2 ^ 64" by simp
  from strong_ok_exec [OF Cons.prems(1) s1 this] have "strong_ok s1" .
  from Cons.IH [OF this r Cons.prems(3)] show ?case .
qed

lemma strong_ok_use_count:
  assumes ok: "strong_ok s" and c: "ctl_block s p = Inr c"
  shows "\<exists>n. use_count p s = Inr n
     \<and> unat n = (if c = nullptr then 0 else count_list (shared s) c)"
proof (cases c)
  case nullptr
  with c show ?thesis by (simp add: use_count_def)
next
  case (Ptr a)
  from c Ptr have p: "p < length (shared s)" "shared s ! p = Ptr a"
    by (auto simp: ctl_block_def split: if_splits)
  note live = strong_ok_live [OF ok p]
  then have "load s a = Inr (blocks s ! a)" by (simp add: load_def)
  with c Ptr have "use_count p s = Inr (strong_count (blocks s ! a))"
    by (simp add: use_count_def get_use_count_def)
  moreover from ok live(1) have "unat (strong_count (blocks s ! a)) = count_list (shared s) (Ptr a)"
    by (simp add: strong_ok_def)
  ultimately show ?thesis using Ptr by simp
qed

text \<open>
  Start from any state in which the strong counts agree with the handles, and run any
  sequence of operations. If it finishes, and fewer than \<open>2^64\<close> SharedPtr objects have
  been made, then \<open>use_count\<close> of every SharedPtr object \<open>p\<close> returns, 0 if \<open>p\<close> is
  empty and otherwise the number of SharedPtr objects that hold the same control-block
  pointer as \<open>p\<close>. An object whose destructor has run holds the null pointer, so these
  are the live handles of the block.
\<close>

lemma finished_run_counts_owners:
  assumes "strong_ok s" and "run ops s = Inr s'" and "length (shared s') < 2 ^ 64"
    and "ctl_block s' p = Inr c"
  shows "\<exists>n. use_count p s' = Inr n
     \<and> unat n = (if c = nullptr then 0 else count_list (shared s') c)"
  using strong_ok_use_count [OF strong_ok_run [OF assms(1-3)] assms(4)] .

lemma SharedPtr_destroy_empties:
  assumes "SharedPtr_destroy p s = Inr s'"
  shows "ctl_block s' p = Inr nullptr" and "use_count p s' = Inr 0"
proof -
  from assms have r: "SharedPtr_reset p s = Inr s'" by (simp add: SharedPtr_destroy_def)
  then have p: "p < length (shared s)"
    by (auto simp: SharedPtr_reset_def ctl_block_def bind_result_eq_Inr split: if_splits)
  from SharedPtr_reset_handles(1) [OF r] p show "ctl_block s' p = Inr nullptr"
    by (simp add: ctl_block_def)
  then show "use_count p s' = Inr 0" by (simp add: use_count_def)
qed

lemma three_owners_counted:
  "strong_ok two_owners
   \<and> run [Copy 0, MoveAssign 2 1, Reset 0, CopyAssign 1 2] two_owners = Inr three_owners
   \<and> length (shared three_owners) < 2 ^ 64
   \<and> ctl_block three_owners 1 = Inr (Ptr 0)
   \<and> use_count 1 three_owners = Inr 3
   \<and> count_list (shared three_owners) (Ptr 0) = 3"
proof -
  have ok: "strong_ok two_owners"
    by (simp add: strong_ok_def two_owners_def)
  have r: "run [Copy 0, MoveAssign 2 1, Reset 0, CopyAssign 1 2] two_owners = Inr three_owners"
    by (simp add: two_owners_def three_owners_def SharedPtr_copy_def SharedPtr_ctl_def
        ctl_block_def call_def load_def add_strong_link_def SharedPtr_move_assign_def
        SharedPtr_reset_def set_ctl_block_def swap_ctl_block_def remove_strong_link_def
        is_valid_def get_use_count_def SharedPtr_copy_assign_def)
  have len: "length (shared three_owners) < 2 ^ 64"
    by (simp add: three_owners_def)
  have c: "ctl_block three_owners 1 = Inr (Ptr 0)"
    by (simp add: ctl_block_def three_owners_def)
  have n: "count_list (shared three_owners) (Ptr 0) = 3"
    by (simp add: three_owners_def)
  from finished_run_counts_owners [OF ok r len c] n
  have "\<exists>n. use_count 1 three_owners = Inr n \<and> unat n = 3" by simp
  then obtain m :: size_t where m: "use_count 1 three_owners = Inr m" "unat m = 3" by blast
  have "m = of_nat (unat m)" by simp
  with m(2) have "m = 3" by simp
  with ok r len c m n show ?thesis by simp
qed

text \<open>In particular in whatever state a program started on the empty state finishes.\<close>

lemma owners_counted_from_init:
  assumes "run ops init = Inr s'" and "length (shared s') < 2 ^ 64"
    and "ctl_block s' p = Inr c"
  shows "\<exists>n. use_count p s' = Inr n
     \<and> unat n = (if c = nullptr then 0 else count_list (shared s') c)"
  using strong_ok_use_count [OF strong_ok_run [OF strong_ok_init assms(1,2)] assms(3)] .

text \<open>
  C2. Not every sequence of copy constructions, copy assignments, moves and resets
  finishes. \<^verbatim>\<open>SharedPtr<T> a(raw); SharedPtr<T> e; a = e;\<close>: the copy assignment resets
  \<^verbatim>\<open>a\<close>, takes the null pointer of \<^verbatim>\<open>e\<close> and calls \<open>add_strong_link\<close> through it, in the
  same-type overload as in the converting one, so there is no state afterwards in which
  \<open>use_count\<close> could be asked. The copy constructor, given the same \<^verbatim>\<open>e\<close>, tests the
  pointer and returns an empty handle.
\<close>

theorem copy_assign_from_empty_handle:
  "run [FromRaw (Ptr (Raw 7)), Default, CopyAssign 0 1] (init :: nat state) =
     Inl NullDereference
   \<and> run [FromRaw (Ptr (Raw 7)), Default, CopyAssignU 0 1] (init :: nat state) =
     Inl NullDereference
   \<and> run [FromRaw (Ptr (Raw 7)), Default, Copy 1] (init :: nat state) =
     Inr \<lparr>blocks = [\<lparr>data = Ptr (Raw 7), strong_count = 1, weak_count = 0,
                      variant = PtrControlBlock, embedded = None,
                      delete_data_calls = 0, delete_block_calls = 0\<rparr>],
          shared = [Ptr 0, nullptr, nullptr], weak = []\<rparr>"
  by (simp add: SharedPtr_raw_def PtrControlBlock_make_block_def SharedPtr_ctl_def call_def
      load_def add_strong_link_def init_def SharedPtr_default_def SharedPtr_copy_assign_def
      SharedPtr_copy_assign_U_def SharedPtr_reset_def ctl_block_def set_ctl_block_def
      remove_strong_link_def is_valid_def get_use_count_def delete_data_def delete_block_def
      SharedPtr_copy_def)

section \<open>The handle operations do not look at the value\<close>

lemma map_sum_bind_result:
  "map_sum id g (bind_result m f) = bind_result m (\<lambda>x. map_sum id g (f x))"
  by (cases m) simp_all

lemma bind_result_map_sum:
  "bind_result (map_sum id g m) f = bind_result m (\<lambda>x. f (g x))"
  by (cases m) simp_all

lemma bind_result_assoc:
  "bind_result (bind_result m f) g = bind_result m (\<lambda>x. bind_result (f x) g)"
  by (cases m) simp_all

lemma forget_update:
  "(forget s)\<lparr>shared := xs\<rparr> = forget (s\<lparr>shared := xs\<rparr>)"
  "(forget s)\<lparr>weak := ws\<rparr> = forget (s\<lparr>weak := ws\<rparr>)"
  by (simp_all add: forget_def)

lemma forget_fields [simp]:
  "shared (forget s) = shared s" "weak (forget s) = weak s"
  "blocks (forget s) = map forget_block (blocks s)"
  by (simp_all add: forget_def)

lemma forget_block_fields [simp]:
  "strong_count (forget_block b) = strong_count b" "weak_count (forget_block b) = weak_count b"
  "delete_data_calls (forget_block b) = delete_data_calls b"
  "delete_block_calls (forget_block b) = delete_block_calls b"
  by (simp_all add: forget_block_def)

lemma load_forget: "load (forget s) a = map_sum id forget_block (load s a)"
  by (simp add: load_def)

lemma link_forget:
  "add_strong_link (forget_block b) = map_sum id forget_block (add_strong_link b)"
  "add_weak_link (forget_block b) = map_sum id forget_block (add_weak_link b)"
  "remove_strong_link (forget_block b) = map_sum id forget_block (remove_strong_link b)"
  "remove_weak_link (forget_block b) = map_sum id forget_block (remove_weak_link b)"
  by (auto simp: add_strong_link_def add_weak_link_def remove_strong_link_def
      remove_weak_link_def forget_block_def is_valid_def get_use_count_def Let_def
      delete_data_def delete_block_def split: variant.splits)

lemma call_forget:
  assumes "\<And>b. f (forget_block b) = map_sum id forget_block (f b)"
  shows "call c f (forget s) = map_sum id forget (call c f s)"
proof (cases c)
  case nullptr
  then show ?thesis by (simp add: call_def)
next
  case (Ptr a)
  show ?thesis
  proof (cases "load s a")
    case (Inl e)
    with Ptr show ?thesis by (simp add: call_def load_forget)
  next
    case (Inr b)
    then have l: "load (forget s) a = Inr (forget_block b)" by (simp add: load_forget)
    have u: "(forget s)\<lparr>blocks := (blocks (forget s))[a := forget_block b']\<rparr> =
        forget (s\<lparr>blocks := (blocks s)[a := b']\<rparr>)" for b'
      by (simp add: forget_def map_update)
    from Ptr Inr l assms [of b] u show ?thesis
      by (cases "f b") (simp_all add: call_def)
  qed
qed

lemmas call_link_forget =
  call_forget [of add_strong_link, OF link_forget(1)]
  call_forget [of add_weak_link, OF link_forget(2)]
  call_forget [of remove_strong_link, OF link_forget(3)]
  call_forget [of remove_weak_link, OF link_forget(4)]

lemma handles_forget [simp]:
  "ctl_block (forget s) p = ctl_block s p"
  "weak_ctl_block (forget s) w = weak_ctl_block s w"
  "set_ctl_block p c (forget s) = forget (set_ctl_block p c s)"
  "set_weak_ctl_block w c (forget s) = forget (set_weak_ctl_block w c s)"
  by (simp_all add: ctl_block_def weak_ctl_block_def set_ctl_block_def set_weak_ctl_block_def
      forget_def)

lemma SharedPtr_reset_forget:
  "SharedPtr_reset p (forget s) = map_sum id forget (SharedPtr_reset p s)"
  by (cases "ctl_block s p")
     (auto simp: SharedPtr_reset_def call_link_forget bind_result_map_sum map_sum_bind_result)

lemma WeakPtr_reset_forget:
  "WeakPtr_reset w (forget s) = map_sum id forget (WeakPtr_reset w s)"
  by (cases "weak_ctl_block s w")
     (auto simp: WeakPtr_reset_def call_link_forget bind_result_map_sum map_sum_bind_result)

lemma SharedPtr_ctl_forget:
  "SharedPtr_ctl c (forget s) = map_sum id (apsnd forget) (SharedPtr_ctl c s)"
  by (cases c)
     (auto simp: SharedPtr_ctl_def call_link_forget bind_result_map_sum map_sum_bind_result
       forget_update)

lemma WeakPtr_ctl_forget:
  "WeakPtr_ctl c (forget s) = map_sum id (apsnd forget) (WeakPtr_ctl c s)"
  by (cases c)
     (auto simp: WeakPtr_ctl_def call_link_forget bind_result_map_sum map_sum_bind_result
       forget_update)

lemma swap_forget:
  "swap_ctl_block this other (forget s) = map_sum id forget (swap_ctl_block this other s)"
  "swap_weak_ctl_block this other (forget s) =
     map_sum id forget (swap_weak_ctl_block this other s)"
  by (simp_all add: swap_ctl_block_def swap_weak_ctl_block_def map_sum_bind_result)

lemma copy_assign_U_forget:
  "SharedPtr_copy_assign_U this other (forget s) =
     map_sum id forget (SharedPtr_copy_assign_U this other s)"
  by (simp add: SharedPtr_copy_assign_U_def SharedPtr_reset_forget call_link_forget
      bind_result_map_sum map_sum_bind_result)

lemma move_assign_U_forget:
  "SharedPtr_move_assign_U this other (forget s) =
     map_sum id forget (SharedPtr_move_assign_U this other s)"
  by (simp add: SharedPtr_move_assign_U_def SharedPtr_reset_forget swap_forget
      bind_result_map_sum map_sum_bind_result)

lemma make_block_forget:
  "SharedPtr_raw nullptr (forget s) = map_sum id (apsnd forget) (SharedPtr_raw d s)"
  "SharedPtr_raw nullptr (forget s) = map_sum id (apsnd forget) (MakeShared T args s)"
  by (simp_all add: SharedPtr_raw_def PtrControlBlock_make_block_def MakeShared_def
      AllocateShared_def ValueControlBlock_make_block_def ValueControlBlock_ctor_def set_data_def Let_def SharedPtr_ctl_def
      call_def load_def add_strong_link_def forget_def forget_block_def nth_append
      list_update_append)

lemma exec_forget: "exec (forget_op x) (forget s) = map_sum id forget (exec x s)"
proof (cases x)
  case Default
  then show ?thesis by (simp add: SharedPtr_default_def forget_def)
next
  case (FromRaw d)
  then show ?thesis
    by (simp add: make_block_forget(1) [of s d] bind_result_map_sum map_sum_bind_result
        bind_result_assoc split_def)
next
  case (Emplace v)
  then show ?thesis
    by (simp add: make_block_forget(2) [of s "\<lambda>_. v" "[] :: unit argument list"] bind_result_map_sum
        map_sum_bind_result bind_result_assoc split_def)
next
  case (Copy other)
  then show ?thesis
    by (simp add: SharedPtr_copy_def SharedPtr_ctl_forget bind_result_map_sum
        map_sum_bind_result bind_result_assoc split_def)
next
  case (Move other)
  then show ?thesis
    by (simp add: SharedPtr_move_def SharedPtr_ctl_forget SharedPtr_reset_forget
        bind_result_map_sum map_sum_bind_result bind_result_assoc split_def)
next
  case (CopyAssign this other)
  then show ?thesis
    using copy_assign_U_forget [of this other s]
    by (simp add: SharedPtr_copy_assign_def SharedPtr_copy_assign_U_def)
next
  case (CopyAssignU this other)
  then show ?thesis by (simp add: copy_assign_U_forget)
next
  case (MoveAssign this other)
  then show ?thesis
    using move_assign_U_forget [of this other s]
    by (simp add: SharedPtr_move_assign_def SharedPtr_move_assign_U_def)
next
  case (MoveAssignU this other)
  then show ?thesis by (simp add: move_assign_U_forget)
next
  case (Reset p)
  then show ?thesis by (simp add: SharedPtr_reset_forget)
next
  case (Destroy p)
  then show ?thesis by (simp add: SharedPtr_destroy_def SharedPtr_reset_forget)
next
  case WeakDefault
  then show ?thesis
    by (simp add: WeakPtr_default_def WeakPtr_ctl_forget bind_result_map_sum
        map_sum_bind_result bind_result_assoc split_def)
next
  case (WeakFromShared owner)
  then show ?thesis
    by (simp add: WeakPtr_from_shared_def WeakPtr_ctl_forget bind_result_map_sum
        map_sum_bind_result bind_result_assoc split_def)
next
  case (WeakCopy other)
  then show ?thesis
    by (simp add: WeakPtr_copy_def bind_result_map_sum map_sum_bind_result bind_result_assoc
        forget_update)
next
  case (WeakMove other)
  then show ?thesis
    by (simp add: WeakPtr_move_def WeakPtr_ctl_forget WeakPtr_reset_forget bind_result_map_sum
        map_sum_bind_result bind_result_assoc split_def)
next
  case (WeakCopyAssign this other)
  then show ?thesis
    by (simp add: WeakPtr_copy_assign_def map_sum_bind_result)
next
  case (WeakCopyAssignU this other)
  then show ?thesis
    by (simp add: WeakPtr_copy_assign_U_def WeakPtr_reset_forget call_link_forget
        bind_result_map_sum map_sum_bind_result)
next
  case (WeakMoveAssign this other)
  then show ?thesis
    by (simp add: WeakPtr_move_assign_def WeakPtr_reset_forget swap_forget bind_result_map_sum
        map_sum_bind_result)
next
  case (WeakReset w)
  then show ?thesis by (simp add: WeakPtr_reset_forget)
next
  case (WeakDestroy w)
  then show ?thesis by (simp add: WeakPtr_destroy_def WeakPtr_reset_forget)
next
  case (Lock w)
  then show ?thesis
    by (simp add: lock_def SharedPtr_ctl_forget bind_result_map_sum map_sum_bind_result
        bind_result_assoc split_def)
qed

lemma run_forget: "run (map forget_op ops) (forget s) = map_sum id forget (run ops s)"
proof (induction ops arbitrary: s)
  case Nil
  then show ?case by simp
next
  case (Cons x xs)
  show ?case
    by (cases "exec x s") (simp_all add: exec_forget Cons.IH)
qed

lemma run_same_forget:
  assumes "forget s = forget t"
  shows "map_sum id forget (run ops s) = map_sum id forget (run ops t)"
  using run_forget [of ops s] run_forget [of ops t] assms by simp

lemma observers_forget:
  "use_count p (forget s) = use_count p s"
  "expired w (forget s) = expired w s"
  by (auto simp: use_count_def expired_def load_forget bind_result_map_sum get_use_count_def
      is_valid_def split: ptr.splits intro!: arg_cong2 [where f = bind_result])

text \<open>
  The handle operations look at the counters and the handles only: the same operations
  after \<open>MakeShared\<close> and after a construction from a raw pointer fail alike or end in
  states with the same handles, counters, deletions and frees. This says nothing of the
  value that was built.
\<close>

lemma MakeShared_like_raw:
  "map_sum id forget (run (Emplace v # ops) s) = map_sum id forget (run (FromRaw d # ops) s)"
proof -
  have "map forget_op (Emplace v # ops) = map forget_op (FromRaw d # ops)" by simp
  with run_forget [of "Emplace v # ops" s] run_forget [of "FromRaw d # ops" s]
  show ?thesis by simp
qed

section \<open>The in-place factory\<close>

text \<open>
  What the constructor of the managed type is given by the factory: for every argument
  of the caller a parameter object of the block's constructor, as an rvalue, two
  constructions away from the caller's object. Only the contents are the caller's.
\<close>

lemma by_value_forwarded:
  "forward_values (by_value parameter args) =
     map (\<lambda>(i, a). \<lparr>object = parameter i, category = rvalue, contents = contents a,
                      constructions = Suc (constructions a)\<rparr>) (enumerate 0 args)"
  by (simp add: forward_values_def by_value_def split_def)

lemma enumerate_map_snd:
  "enumerate n (map f (enumerate n xs)) = map (\<lambda>(i, x). (i, f (i, x))) (enumerate n xs)"
  by (induction xs arbitrary: n) simp_all

lemma received_arguments:
  "forward_values (by_value Parameter_of_constructor
     (forward_values (by_value Parameter_of_make_block args))) =
   map (\<lambda>(i, a). \<lparr>object = Parameter_of_constructor i, category = rvalue,
                    contents = contents a, constructions = Suc (Suc (constructions a))\<rparr>)
     (enumerate 0 args)"
  by (simp add: by_value_forwarded [of Parameter_of_constructor] by_value_forwarded
      [of Parameter_of_make_block] enumerate_map_snd split_def)

lemma received_contents:
  "map contents (forward_values (by_value Parameter_of_constructor
     (forward_values (by_value Parameter_of_make_block args)))) = map contents args"
proof -
  have "map (\<lambda>x. contents (snd x)) (enumerate n args) = map contents args" for n
    by (induction args arbitrary: n) simp_all
  then show ?thesis by (simp add: received_arguments split_def comp_def)
qed

text \<open>
  \<open>AllocateShared\<close> and \<open>MakeShared\<close> always return. They add exactly one block to the
  heap and nothing else: a \<^verbatim>\<open>ValueControlBlock\<close> whose own storage holds the value and
  whose data pointer is the address of that storage, so value and counters come from the
  one allocation. The new handle has \<open>use_count\<close> 1 and \<open>get\<close> gives the embedded
  storage. The value is what \<open>T\<close> makes of the arguments it is given.
\<close>

lemma AllocateShared_one_allocation:
  "\<exists>p s'. AllocateShared T args s = Inr (p, s') \<and> MakeShared T args s = Inr (p, s')
     \<and> blocks s' = blocks s @
         [\<lparr>data = Ptr (Embedded (length (blocks s))), strong_count = 1, weak_count = 0,
           variant = ValueControlBlock,
           embedded = Some (T (forward_values (by_value Parameter_of_constructor
             (forward_values (by_value Parameter_of_make_block args))))),
           delete_data_calls = 0, delete_block_calls = 0\<rparr>]
     \<and> shared s' = shared s @ [Ptr (length (blocks s))] \<and> weak s' = weak s
     \<and> p = length (shared s)
     \<and> use_count p s' = Inr 1
     \<and> get p s' = Inr (Ptr (Embedded (length (blocks s))))"
  by (simp add: MakeShared_def AllocateShared_def ValueControlBlock_make_block_def
      ValueControlBlock_ctor_def set_data_def SharedPtr_ctl_def call_def load_def
      add_strong_link_def nth_append Let_def use_count_def get_def ctl_block_def
      get_use_count_def get_data_def)

text \<open>
  A constructor that looks at the contents of its arguments only builds the value that
  \<^verbatim>\<open>new T(args...)\<close> builds.
\<close>

lemma AllocateShared_by_contents:
  assumes "\<And>xs. T xs = f (map contents xs)"
  shows "\<exists>p s'. AllocateShared T args s = Inr (p, s')
     \<and> embedded (blocks s' ! length (blocks s)) = Some (new_expression T args)"
proof -
  from AllocateShared_one_allocation [of T args s] obtain p s' where
    a: "AllocateShared T args s = Inr (p, s')" and
    b: "embedded (blocks s' ! length (blocks s)) =
      Some (T (forward_values (by_value Parameter_of_constructor
        (forward_values (by_value Parameter_of_make_block args)))))"
    by auto
  from b have "embedded (blocks s' ! length (blocks s)) = Some (new_expression T args)"
    by (simp add: assms received_contents new_expression_def)
  with a show ?thesis by blast
qed

text \<open>
  C10. One allocation, but not the value of \<^verbatim>\<open>new T(args...)\<close>. Take a \<^verbatim>\<open>T\<close> whose
  constructor records its argument as it sees it, and call the factory on the caller's
  object 0, an lvalue holding 5. \<^verbatim>\<open>new T(x)\<close> gives the constructor that object, as an
  lvalue. The factory gives it an rvalue of a parameter of the block's constructor, the
  second copy of the caller's object: a \<^verbatim>\<open>T\<close> that keeps the address, counts the copies
  or overloads on the category is built differently.
\<close>

theorem AllocateShared_arguments_copied:
  "bind_result
     (AllocateShared (\<lambda>args. args)
        [\<lparr>object = Caller 0, category = lvalue, contents = 5 :: nat, constructions = 0\<rparr>] init)
     (\<lambda>(p, s'). Inr (length (blocks s'), embedded (blocks s' ! 0))) =
     Inr (1, Some [\<lparr>object = Parameter_of_constructor 0, category = rvalue, contents = 5,
                    constructions = 2\<rparr>])
   \<and> new_expression (\<lambda>args. args)
       [\<lparr>object = Caller 0, category = lvalue, contents = 5 :: nat, constructions = 0\<rparr>] =
     [\<lparr>object = Caller 0, category = lvalue, contents = 5, constructions = 0\<rparr>]"
  by (simp add: AllocateShared_def ValueControlBlock_make_block_def ValueControlBlock_ctor_def
      by_value_def forward_values_def set_data_def SharedPtr_ctl_def call_def load_def
      add_strong_link_def init_def new_expression_def)

section \<open>The scenarios of the specification\<close>

text \<open>
  \<^verbatim>\<open>SharedPtr<int> a(new int(1)); SharedPtr<int> b = a; a.use_count(); a.reset(); b.use_count();\<close>
  gives 2 and 1.
\<close>

lemma scenario_copy_then_reset:
  "bind_result (SharedPtr_raw (Ptr (Raw 1)) init) (\<lambda>(a, s1).
   bind_result (SharedPtr_copy a s1) (\<lambda>(b, s2).
   bind_result (use_count a s2) (\<lambda>n.
   bind_result (SharedPtr_reset a s2) (\<lambda>s3.
   bind_result (use_count b s3) (\<lambda>m. Inr (n, m)))))) = Inr (2, 1)"
  by (simp add: SharedPtr_raw_def PtrControlBlock_make_block_def SharedPtr_ctl_def call_def
      load_def add_strong_link_def init_def SharedPtr_copy_def ctl_block_def use_count_def
      get_use_count_def SharedPtr_reset_def remove_strong_link_def is_valid_def set_ctl_block_def)

text \<open>
  \<^verbatim>\<open>SharedPtr<int> a = MakeShared<int>(5); WeakPtr<int> w = a; a.reset(); w.expired(); w.lock().get();\<close>
  gives true and, against the scenario's \<^verbatim>\<open>assert(w.lock().get() == nullptr)\<close>, the
  address of the destroyed value.
\<close>

lemma scenario_lock_after_reset:
  "bind_result (MakeShared (\<lambda>args. contents (hd args))
     [\<lparr>object = Caller 0, category = rvalue, contents = 5 :: int, constructions = 0\<rparr>] init)
     (\<lambda>(a, s1).
   bind_result (WeakPtr_from_shared a s1) (\<lambda>(w, s2).
   bind_result (SharedPtr_reset a s2) (\<lambda>s3.
   bind_result (expired w s3) (\<lambda>e.
   bind_result (lock w s3) (\<lambda>(l, s4).
   bind_result (get l s4) (\<lambda>g. Inr (e, g))))))) = Inr (True, Ptr (Embedded 0))"
  by (simp add: MakeShared_def AllocateShared_def ValueControlBlock_make_block_def
      ValueControlBlock_ctor_def by_value_def forward_values_def set_data_def
      SharedPtr_ctl_def call_def load_def add_strong_link_def init_def WeakPtr_from_shared_def
      WeakPtr_ctl_def add_weak_link_def ctl_block_def weak_ctl_block_def SharedPtr_reset_def
      remove_strong_link_def is_valid_def get_use_count_def delete_data_def set_ctl_block_def
      expired_def lock_def get_def get_data_def)

end
